theory Spec2Isabelle
  imports Main "HOL-Library.Word" "HOL-Library.Sublist"
begin

unbundle bit_operations_syntax

text \<open>
  The Go package \<^verbatim>\<open>ella.to/vault\<close>: three exported functions, \<^verbatim>\<open>Set\<close>,
  \<^verbatim>\<open>Get\<close> and \<^verbatim>\<open>Del\<close>, over one of six platform adapters (macOS keychain, Windows
  credential manager, Linux \<^verbatim>\<open>secret-tool\<close> with a file store as fallback, file stores
  on iOS and Android, IndexedDB in the browser). The functions of the package are
  translated one by one; the functions of Go's standard library that they call
  (\<^verbatim>\<open>encoding/base64\<close>, \<^verbatim>\<open>strings\<close>, \<^verbatim>\<open>unicode/utf8\<close>, \<^verbatim>\<open>path/filepath\<close>)
  are modelled first, and what is outside the process (running a command, the file
  system, IndexedDB) is a parameter of every adapter.
\<close>

section \<open>Bytes and strings\<close>

text \<open>
  A Go \<^verbatim>\<open>[]byte\<close> is a list of 8-bit words, a Go \<^verbatim>\<open>string\<close> a list of
  characters (one \<open>char\<close> per byte). The conversions \<^verbatim>\<open>[]byte(s)\<close> and
  \<^verbatim>\<open>string(b)\<close> copy the bytes. A nil slice and an empty slice are both \<open>[]\<close>:
  the code only ever asks for their length.
\<close>

type_synonym byte = "8 word"

definition bytes_of_string :: "string \<Rightarrow> byte list" where
  "bytes_of_string s = map (\<lambda>c. of_nat (of_char c)) s"

definition string_of_bytes :: "byte list \<Rightarrow> string" where
  "string_of_bytes b = map (\<lambda>x. char_of (unat x)) b"

section \<open>encoding/base64\<close>

text \<open>
  The standard library's padded encodings. \<open>encodeStd\<close> and \<open>encodeURL\<close> are the two
  64-character alphabets, \<open>padChar\<close> is \<^verbatim>\<open>'='\<close>; both encodings are non-strict.
  An index \<open>val >> k & 0x3F\<close> is below 64, so \<open>enc ! _\<close> is always in range.
\<close>

definition encodeStd :: string where
  "encodeStd = ''ABCDEFGHIJKLMNOPQRSTUVWXYZabcdefghijklmnopqrstuvwxyz0123456789+/''"

definition encodeURL :: string where
  "encodeURL = ''ABCDEFGHIJKLMNOPQRSTUVWXYZabcdefghijklmnopqrstuvwxyz0123456789-_''"

definition padChar :: char where
  "padChar = CHR ''=''"

fun Encode :: "string \<Rightarrow> byte list \<Rightarrow> string" where
  "Encode enc (a # b # c # rest) =
     (let val = push_bit 16 (ucast a) OR push_bit 8 (ucast b) OR ucast c :: 64 word in
      enc ! unat (drop_bit 18 val AND 0x3F) #
      enc ! unat (drop_bit 12 val AND 0x3F) #
      enc ! unat (drop_bit 6 val AND 0x3F) #
      enc ! unat (val AND 0x3F) # Encode enc rest)"
| "Encode enc [a, b] =
     (let val = push_bit 16 (ucast a) OR push_bit 8 (ucast b) :: 64 word in
      [enc ! unat (drop_bit 18 val AND 0x3F),
       enc ! unat (drop_bit 12 val AND 0x3F),
       enc ! unat (drop_bit 6 val AND 0x3F),
       padChar])"
| "Encode enc [a] =
     (let val = push_bit 16 (ucast a) :: 64 word in
      [enc ! unat (drop_bit 18 val AND 0x3F),
       enc ! unat (drop_bit 12 val AND 0x3F),
       padChar, padChar])"
| "Encode enc [] = []"

definition EncodeToString :: "string \<Rightarrow> byte list \<Rightarrow> string" where
  "EncodeToString enc src = Encode enc src"

text \<open>
  \<open>decodeMap\<close> is the inverse table of the alphabet: the position of a character, or
  \<open>None\<close> where the table holds \<^verbatim>\<open>0xff\<close>.
\<close>

fun decodeMap :: "string \<Rightarrow> char \<Rightarrow> byte option" where
  "decodeMap [] c = None"
| "decodeMap (x # xs) c = (if c = x then Some 0 else map_option (\<lambda>i. i + 1) (decodeMap xs c))"

definition isNewline :: "char \<Rightarrow> bool" where
  "isNewline c = (c = CHR 0x0A \<or> c = CHR 0x0D)"

text \<open>
  The last step of \<^verbatim>\<open>decodeQuantum\<close>: \<open>dbuf\<close> holds the \<open>dlen\<close> sextets read (the other
  entries of the four-byte buffer are zero), and \<open>dlen - 1\<close> bytes come out.
\<close>

definition convert :: "byte list \<Rightarrow> byte list" where
  "convert dbuf =
     (let d = (\<lambda>i. if i < length dbuf then dbuf ! i else 0);
          val = push_bit 18 (ucast (d 0)) OR push_bit 12 (ucast (d 1)) OR
                push_bit 6 (ucast (d 2)) OR ucast (d 3) :: 64 word
      in take (length dbuf - 1) [ucast (drop_bit 16 val), ucast (drop_bit 8 val), ucast val])"

text \<open>
  \<^verbatim>\<open>decodeQuantum\<close> reads up to four sextets, skipping \<^verbatim>\<open>\r\<close> and \<^verbatim>\<open>\n\<close>. The model
  walks the unread input; \<open>n\<close> is \<^verbatim>\<open>len(src)\<close>, so the index \<^verbatim>\<open>si\<close> is \<open>n\<close> minus the
  length of what is unread. The result holds the unread input, the bytes written and the
  offset of a \<^verbatim>\<open>CorruptInputError\<close>, if any.
\<close>

datatype quantum = Quantum (q_rest: string) (q_bytes: "byte list") (q_err: "nat option")

fun decodeQuantum :: "string \<Rightarrow> nat \<Rightarrow> byte list \<Rightarrow> string \<Rightarrow> quantum" where
  "decodeQuantum enc n dbuf [] =
     (if length dbuf = 4 then Quantum [] (convert dbuf) None
      else if dbuf = [] then Quantum [] [] None
      else Quantum [] [] (Some (n - length dbuf)))"
| "decodeQuantum enc n dbuf (c # cs) =
     (if length dbuf = 4 then Quantum (c # cs) (convert dbuf) None
      else case decodeMap enc c of
        Some out \<Rightarrow> decodeQuantum enc n (dbuf @ [out]) cs
      | None \<Rightarrow>
          if isNewline c then decodeQuantum enc n dbuf cs
          else if c \<noteq> padChar then Quantum cs [] (Some (n - length cs - 1))
          else if length dbuf < 2 then Quantum cs [] (Some (n - length cs - 1))
          else if length dbuf = 2 then
            (let cs1 = dropWhile isNewline cs in
             if cs1 = [] then Quantum [] [] (Some n)
             else if hd cs1 \<noteq> padChar then Quantum cs1 [] (Some (n - length cs1 - 1))
             else
               (let cs2 = dropWhile isNewline (tl cs1) in
                Quantum cs2 (convert dbuf)
                  (if cs2 \<noteq> [] then Some (n - length cs2) else None)))
          else
            (let cs2 = dropWhile isNewline cs in
             Quantum cs2 (convert dbuf)
               (if cs2 \<noteq> [] then Some (n - length cs2) else None)))"

lemma decodeQuantum_rest_le:
  "length (q_rest (decodeQuantum enc n dbuf src)) \<le> length src"
proof (induction src arbitrary: dbuf)
  case Nil
  then show ?case by simp
next
  case (Cons c cs)
  have dw: "\<And>xs. length (dropWhile isNewline xs) \<le> length xs"
    by (simp add: length_dropWhile_le)
  have dw2: "length (dropWhile isNewline (tl (dropWhile isNewline cs))) \<le> length cs"
    by (metis dw le_trans length_tl diff_le_self)
  show ?case
    using Cons.IH[of "dbuf"] Cons.IH dw[of cs] dw2
    by (auto simp: Let_def le_SucI split: option.splits)
qed

lemma decodeQuantum_rest_less:
  "length dbuf < 4 \<Longrightarrow> length (q_rest (decodeQuantum enc n dbuf (c # cs))) < Suc (length cs)"
  using decodeQuantum_rest_le[of enc n _ cs] length_dropWhile_le[of isNewline cs]
    length_dropWhile_le[of isNewline "tl (dropWhile isNewline cs)"]
  by (auto simp: Let_def less_Suc_eq_le split: option.splits)

text \<open>
  \<^verbatim>\<open>Decode\<close>: one quantum after the other until the input is used up or a quantum
  reports an error. (The library's 8- and 4-character fast paths decode the same quanta.)
  The bytes written so far are returned together with the error.
\<close>

function Decode_loop :: "string \<Rightarrow> nat \<Rightarrow> string \<Rightarrow> byte list \<times> nat option" where
  "Decode_loop enc n src =
     (if src = [] then ([], None)
      else case decodeQuantum enc n [] src of
        Quantum rest bs err \<Rightarrow>
          (if err \<noteq> None then (bs, err)
           else (case Decode_loop enc n rest of (bs', e) \<Rightarrow> (bs @ bs', e))))"
  by pat_completeness auto
termination
proof (relation "measure (\<lambda>(enc, n, src). length src)")
  show "wf (measure (\<lambda>(enc, n, src). length src))" by simp
next
  fix enc :: string and n :: nat and src x2 :: string and x1 x3 and x4 :: "nat option"
  assume "src \<noteq> []" and q: "decodeQuantum enc n [] src = Quantum x2 x3 x4"
  then obtain c cs where src: "src = c # cs" by (cases src) auto
  from decodeQuantum_rest_less[of "[]" enc n c cs] q src
  show "((enc, n, x2), enc, n, src) \<in> measure (\<lambda>(enc, n, src). length src)"
    by simp
qed

declare Decode_loop.simps [simp del]

text \<open>\<^verbatim>\<open>DecodeString\<close> returns \<^verbatim>\<open>dbuf[:n], err\<close>; the error is a \<^verbatim>\<open>CorruptInputError\<close>.\<close>

definition DecodeString :: "string \<Rightarrow> string \<Rightarrow> byte list \<times> nat option" where
  "DecodeString enc s = Decode_loop enc (length s) s"

section \<open>unicode/utf8, unicode and strings\<close>

definition RuneError :: nat where
  "RuneError = 0xFFFD"

definition RuneSelf :: nat where
  "RuneSelf = 0x80"

definition UTFMax :: nat where
  "UTFMax = 4"

text \<open>
  \<^verbatim>\<open>utf8.DecodeRuneInString\<close>: the rune at the start of \<open>s\<close> and its width in bytes; an
  invalid encoding is \<open>RuneError\<close> of width 1. The tables \<^verbatim>\<open>first\<close> and
  \<^verbatim>\<open>acceptRanges\<close> are written out as the ranges they hold.
\<close>

definition DecodeRuneInString :: "string \<Rightarrow> nat \<times> nat" where
  "DecodeRuneInString s =
     (let n = length s in
      if n < 1 then (RuneError, 0)
      else
        let s0 = of_char (s ! 0) :: nat in
        if s0 < 0x80 then (s0, 1)
        else if s0 < 0xC2 \<or> 0xF4 < s0 then (RuneError, 1)
        else
          let sz = (if s0 < 0xE0 then 2 else if s0 < 0xF0 then 3 else 4 :: nat);
              lo = (if s0 = 0xE0 then 0xA0 else if s0 = 0xF0 then 0x90 else 0x80 :: nat);
              hi = (if s0 = 0xED then 0x9F else if s0 = 0xF4 then 0x8F else 0xBF :: nat)
          in
          if n < sz then (RuneError, 1)
          else
            let s1 = of_char (s ! 1) :: nat in
            if s1 < lo \<or> hi < s1 then (RuneError, 1)
            else if sz \<le> 2 then (push_bit 6 (s0 AND 0x1F) OR (s1 AND 0x3F), 2)
            else
              let s2 = of_char (s ! 2) :: nat in
              if s2 < 0x80 \<or> 0xBF < s2 then (RuneError, 1)
              else if sz \<le> 3 then
                (push_bit 12 (s0 AND 0x0F) OR push_bit 6 (s1 AND 0x3F) OR (s2 AND 0x3F), 3)
              else
                let s3 = of_char (s ! 3) :: nat in
                if s3 < 0x80 \<or> 0xBF < s3 then (RuneError, 1)
                else
                  (push_bit 18 (s0 AND 0x07) OR push_bit 12 (s1 AND 0x3F) OR
                   push_bit 6 (s2 AND 0x3F) OR (s3 AND 0x3F), 4))"

definition RuneStart :: "nat \<Rightarrow> bool" where
  "RuneStart b = (b AND 0xC0 \<noteq> 0x80)"

text \<open>
  The loop of \<^verbatim>\<open>DecodeLastRuneInString\<close> that backs up to the start of the last rune:
  \<^verbatim>\<open>for start--; start >= lim; start-- { if RuneStart(s[start]) { break } }\<close>,
  entered after the first decrement.
\<close>

function backup :: "string \<Rightarrow> int \<Rightarrow> int \<Rightarrow> int" where
  "backup s lim start =
     (if lim \<le> start then
        (if RuneStart (of_char (s ! nat start)) then start else backup s lim (start - 1))
      else start)"
  by pat_completeness auto
termination
  by (relation "measure (\<lambda>(s, lim, start). nat (start - lim + 1))") auto

declare backup.simps [simp del]

text \<open>
  \<^verbatim>\<open>DecodeLastRuneInString\<close>, for a string that ends in a non-ASCII byte: \<open>last_start\<close>
  is where the last rune may start (at most \<open>UTFMax\<close> bytes back), and the rune decoded
  from there counts only if it ends at the end of the string.
\<close>

definition last_start :: "string \<Rightarrow> nat" where
  "last_start s =
     (let len = int (length s);
          lim = (if len - int UTFMax < 0 then 0 else len - int UTFMax);
          start = backup s lim (len - 1 - 1)
      in nat (if start < 0 then 0 else start))"

definition DecodeLastRuneInString :: "string \<Rightarrow> nat \<times> nat" where
  "DecodeLastRuneInString s =
     (if length s = 0 then (RuneError, 0)
      else
        let r = of_char (s ! (length s - 1)) :: nat in
        if r < RuneSelf then (r, 1)
        else
          case DecodeRuneInString (drop (last_start s) s) of
            (r, wid) \<Rightarrow> if last_start s + wid \<noteq> length s then (RuneError, 1) else (r, wid))"

text \<open>\<^verbatim>\<open>unicode.IsSpace\<close>: the Latin-1 cases, then the \<^verbatim>\<open>White_Space\<close> table.\<close>

definition IsSpace :: "nat \<Rightarrow> bool" where
  "IsSpace r =
     (if r \<le> 0xFF then
        r = 0x09 \<or> r = 0x0A \<or> r = 0x0B \<or> r = 0x0C \<or> r = 0x0D \<or> r = 0x20 \<or>
        r = 0x85 \<or> r = 0xA0
      else
        r = 0x1680 \<or> (0x2000 \<le> r \<and> r \<le> 0x200A) \<or> r = 0x2028 \<or> r = 0x2029 \<or>
        r = 0x202F \<or> r = 0x205F \<or> r = 0x3000)"

text \<open>The table \<^verbatim>\<open>asciiSpace\<close>: tab, newline, vertical tab, form feed, return, space.\<close>

definition asciiSpace :: "char \<Rightarrow> bool" where
  "asciiSpace c =
     (c = CHR 0x09 \<or> c = CHR 0x0A \<or> c = CHR 0x0B \<or> c = CHR 0x0C \<or> c = CHR 0x0D \<or>
      c = CHR 0x20)"

lemma DecodeRuneInString_size: "s \<noteq> [] \<Longrightarrow> 0 < snd (DecodeRuneInString s)"
  by (cases s) (simp_all add: DecodeRuneInString_def Let_def)

text \<open>
  \<^verbatim>\<open>TrimLeftFunc(s, f)\<close>: \<^verbatim>\<open>indexFunc\<close> ranges over the runes of \<open>s\<close> and stops at
  the first one that \<open>f\<close> rejects; the result is the rest from there, or the empty string.
\<close>

function TrimLeftFunc :: "(nat \<Rightarrow> bool) \<Rightarrow> string \<Rightarrow> string" where
  "TrimLeftFunc f s =
     (if s = [] then []
      else case DecodeRuneInString s of
        (r, wid) \<Rightarrow> if \<not> f r then s else TrimLeftFunc f (drop wid s))"
  by pat_completeness auto
termination
proof (relation "measure (\<lambda>(f, s). length s)")
  show "wf (measure (\<lambda>(f, s). length s))" by simp
next
  fix f :: "nat \<Rightarrow> bool" and s :: string and r wid :: nat
  assume "s \<noteq> []" and "(r, wid) = DecodeRuneInString s"
  then have "0 < wid"
    using DecodeRuneInString_size[of s] by (metis snd_conv)
  with \<open>s \<noteq> []\<close> show "((f, drop wid s), f, s) \<in> measure (\<lambda>(f, s). length s)"
    by simp
qed

declare TrimLeftFunc.simps [simp del]

lemma backup_le: "backup s lim start \<le> start"
proof (induction s lim start rule: backup.induct)
  case (1 s lim start)
  then show ?case
    by (subst backup.simps) (auto simp: le_diff_eq)
qed

lemma last_start_less: "s \<noteq> [] \<Longrightarrow> last_start s < length s"
proof -
  assume ne: "s \<noteq> []"
  let ?lim = "if int (length s) - int UTFMax < 0 then 0 else int (length s) - int UTFMax"
  have "backup s ?lim (int (length s) - 1 - 1) \<le> int (length s) - 1 - 1"
    by (rule backup_le)
  with ne show ?thesis
    unfolding last_start_def Let_def by (cases s) auto
qed

lemma DecodeLastRuneInString_size: "s \<noteq> [] \<Longrightarrow> 0 < snd (DecodeLastRuneInString s)"
  using last_start_less[of s]
  by (auto simp: DecodeLastRuneInString_def Let_def split: prod.splits)

text \<open>
  \<^verbatim>\<open>lastIndexFunc(s, f, false)\<close> walks the runes of \<open>s\<close> from the end and returns the
  index of the last rune that \<open>f\<close> rejects, or \<open>-1\<close>. The argument is the prefix
  \<^verbatim>\<open>s[0:i]\<close> still to be looked at.
\<close>

function lastIndexFunc :: "(nat \<Rightarrow> bool) \<Rightarrow> string \<Rightarrow> int" where
  "lastIndexFunc f s =
     (if s = [] then - 1
      else case DecodeLastRuneInString s of
        (r, wid) \<Rightarrow>
          if \<not> f r then int (length s - wid) else lastIndexFunc f (take (length s - wid) s))"
  by pat_completeness auto
termination
proof (relation "measure (\<lambda>(f, s). length s)")
  show "wf (measure (\<lambda>(f, s). length s))" by simp
next
  fix f :: "nat \<Rightarrow> bool" and s :: string and r wid :: nat
  assume "s \<noteq> []" and "(r, wid) = DecodeLastRuneInString s"
  then have "0 < wid"
    using DecodeLastRuneInString_size[of s] by (metis snd_conv)
  with \<open>s \<noteq> []\<close> show "((f, take (length s - wid) s), f, s) \<in> measure (\<lambda>(f, s). length s)"
    by simp
qed

declare lastIndexFunc.simps [simp del]

definition TrimRightFunc :: "(nat \<Rightarrow> bool) \<Rightarrow> string \<Rightarrow> string" where
  "TrimRightFunc f s =
     (let i = lastIndexFunc f s in
      if 0 \<le> i \<and> RuneSelf \<le> of_char (s ! nat i) then
        take (nat i + snd (DecodeRuneInString (drop (nat i) s))) s
      else take (nat (i + 1)) s)"

definition TrimFunc :: "(nat \<Rightarrow> bool) \<Rightarrow> string \<Rightarrow> string" where
  "TrimFunc f s = TrimRightFunc f (TrimLeftFunc f s)"

text \<open>
  \<^verbatim>\<open>strings.TrimSpace\<close>. The first loop moves \<^verbatim>\<open>start\<close> over ASCII space and hands
  over to \<open>TrimFunc\<close> at the first non-ASCII byte; the second loop moves \<^verbatim>\<open>stop\<close> back
  from the end of \<^verbatim>\<open>s[start:]\<close> in the same way (\<open>trim_stop\<close> takes that slice reversed).
\<close>

fun trim_stop :: "string \<Rightarrow> string" where
  "trim_stop [] = []"
| "trim_stop (c # cs) =
     (if RuneSelf \<le> of_char c then TrimRightFunc IsSpace (rev (c # cs))
      else if asciiSpace c then trim_stop cs
      else rev (c # cs))"

fun TrimSpace :: "string \<Rightarrow> string" where
  "TrimSpace [] = []"
| "TrimSpace (c # cs) =
     (if RuneSelf \<le> of_char c then TrimFunc IsSpace (c # cs)
      else if asciiSpace c then TrimSpace cs
      else trim_stop (rev (c # cs)))"

text \<open>\<^verbatim>\<open>strings.Contains(s, substr)\<close>.\<close>

fun Contains :: "string \<Rightarrow> string \<Rightarrow> bool" where
  "Contains [] substr = (substr = [])"
| "Contains (c # cs) substr = (prefix substr (c # cs) \<or> Contains cs substr)"

text \<open>
  \<^verbatim>\<open>strings.ToLower\<close>. A string of ASCII bytes is lowered byte by byte; any other string
  goes through \<^verbatim>\<open>Map(unicode.ToLower, s)\<close>, whose case tables are not written out here:
  that mapping is the parameter \<open>unicode_lower\<close>.
\<close>

definition lower_byte :: "char \<Rightarrow> char" where
  "lower_byte c =
     (if (of_char (CHR ''A'') :: nat) \<le> of_char c \<and> (of_char c :: nat) \<le> of_char (CHR ''Z'')
      then char_of (of_char c + (of_char (CHR ''a'') - of_char (CHR ''A'') :: nat))
      else c)"

definition ToLower :: "(string \<Rightarrow> string) \<Rightarrow> string \<Rightarrow> string" where
  "ToLower unicode_lower s =
     (if \<forall>c \<in> set s. (of_char c :: nat) < RuneSelf then map lower_byte s
      else unicode_lower s)"

section \<open>path/filepath (Unix)\<close>

definition Separator :: char where
  "Separator = CHR ''/''"

text \<open>
  The \<^verbatim>\<open>..\<close> case of \<^verbatim>\<open>Clean\<close> when it can backtrack: drop one byte, then every
  byte down to \<^verbatim>\<open>dotdot\<close> or to the last separator, which goes too.
\<close>

function backtrack :: "string \<Rightarrow> nat \<Rightarrow> nat \<Rightarrow> nat" where
  "backtrack out dotdot w =
     (if dotdot < w \<and> out ! w \<noteq> Separator then backtrack out dotdot (w - 1) else w)"
  by pat_completeness auto
termination
  by (relation "measure (\<lambda>(out, dotdot, w). w)") auto

declare backtrack.simps [simp del]

text \<open>
  The main loop of \<^verbatim>\<open>Clean\<close> over the unread path \<^verbatim>\<open>path[r:]\<close>; the state is the
  output buffer and the index \<^verbatim>\<open>dotdot\<close>.
\<close>

function clean_loop :: "bool \<Rightarrow> string \<times> nat \<Rightarrow> string \<Rightarrow> string \<times> nat" where
  "clean_loop rooted st [] = st"
| "clean_loop rooted (out, dotdot) (c # cs) =
     (if c = Separator then clean_loop rooted (out, dotdot) cs
      else if c = CHR ''.'' \<and> (cs = [] \<or> hd cs = Separator) then
        clean_loop rooted (out, dotdot) cs
      else if c = CHR ''.'' \<and> hd cs = CHR ''.'' \<and> (tl cs = [] \<or> hd (tl cs) = Separator) then
        (if dotdot < length out then
           clean_loop rooted (take (backtrack out dotdot (length out - 1)) out, dotdot) (tl cs)
         else if \<not> rooted then
           (let out' = (if 0 < length out then out @ [Separator] else out) @ ''..''
            in clean_loop rooted (out', length out') (tl cs))
         else clean_loop rooted (out, dotdot) (tl cs))
      else
        (let out' = (if rooted \<and> length out \<noteq> 1 \<or> \<not> rooted \<and> length out \<noteq> 0
                     then out @ [Separator] else out)
         in clean_loop rooted
              (out' @ takeWhile (\<lambda>x. x \<noteq> Separator) (c # cs), dotdot)
              (dropWhile (\<lambda>x. x \<noteq> Separator) (c # cs))))"
  by pat_completeness auto
termination
proof (relation "measure (\<lambda>(rooted, st, path). length path)")
  show "wf (measure (\<lambda>(rooted, st, path). length path))" by simp
qed (auto simp: less_Suc_eq_le length_dropWhile_le intro: le_trans[OF diff_le_self])

declare clean_loop.simps(2) [simp del]

definition Clean :: "string \<Rightarrow> string" where
  "Clean path =
     (if path = [] then ''.''
      else
        let rooted = (hd path = Separator);
            st = (if rooted then ([Separator], 1) else ([], 0));
            out = fst (clean_loop rooted st (if rooted then tl path else path))
        in if out = [] then ''.'' else out)"

text \<open>\<^verbatim>\<open>strings.Join(elems, sep)\<close>.\<close>

fun strings_Join :: "string list \<Rightarrow> string \<Rightarrow> string" where
  "strings_Join [] sep = []"
| "strings_Join [e] sep = e"
| "strings_Join (e # es) sep = e @ sep @ strings_Join es sep"

text \<open>\<^verbatim>\<open>filepath.Join\<close>: leading empty elements are skipped, the rest is joined and cleaned.\<close>

fun Join :: "string list \<Rightarrow> string" where
  "Join [] = []"
| "Join (e # es) = (if e = [] then Join es else Clean (strings_Join (e # es) [Separator]))"

declare Join.simps [simp del]

section \<open>Errors\<close>

text \<open>
  The three sentinel errors of \<^verbatim>\<open>vault.go\<close>, compared by identity in the code, and the
  other error values the adapters return: base64's \<^verbatim>\<open>CorruptInputError\<close> with its
  offset, an error of the operating system, \<^verbatim>\<open>errors.New(msg)\<close>, and
  \<^verbatim>\<open>fmt.Errorf\<close> with the text it formats and the error it wraps with \<^verbatim>\<open>%w\<close>, if any.
\<close>

datatype os_error = ErrNotExist | OtherOsError string

datatype error =
    ErrNotFound
  | ErrInvalidKey
  | ErrInvalidValue
  | CorruptInputError nat
  | OsError os_error
  | errors_New string
  | fmt_Errorf string "error option"

text \<open>\<^verbatim>\<open>os.IsNotExist\<close>.\<close>

fun IsNotExist :: "os_error \<Rightarrow> bool" where
  "IsNotExist ErrNotExist = True"
| "IsNotExist (OtherOsError m) = False"

section \<open>The facilities the adapters call\<close>

text \<open>
  What \<^verbatim>\<open>cmd.Run()\<close> leaves behind: whether it returned an error, and the two captured
  buffers.
\<close>

record proc =
  run_failed :: bool
  stdout :: string
  stderr :: string

text \<open>
  An argument of \<^verbatim>\<open>exec.Command\<close>: a string, or the result of
  \<^verbatim>\<open>fmt.Sprintf(format, a...)\<close>, which is kept as the format and its operands. Only
  the two PowerShell scripts of \<^verbatim>\<open>vault_windows.go\<close> are built that way.
\<close>

datatype arg =
    Arg string
  | Sprintf string "string list"

text \<open>What the \<^verbatim>\<open>onsuccess\<close>/\<^verbatim>\<open>onerror\<close> pair of an IndexedDB \<^verbatim>\<open>get\<close> request delivers.\<close>

datatype idb_lookup = IdbError | IdbUndefined | IdbRecord string

text \<open>
  The process, file-system and IndexedDB facilities, over a world \<open>'w\<close> that each call
  may change. Every adapter below takes them as the parameter \<open>S\<close>, so a statement proved
  for all \<open>S\<close> holds whatever the tools and the operating system do. A request of
  IndexedDB fires exactly one of its two callbacks: \<open>True\<close> is \<^verbatim>\<open>onsuccess\<close>.
\<close>

record 'w sys =
  exec_Command :: "string \<Rightarrow> arg list \<Rightarrow> byte list \<Rightarrow> 'w \<Rightarrow> proc \<times> 'w"
  LookPath :: "string \<Rightarrow> 'w \<Rightarrow> bool"
  Getenv :: "string \<Rightarrow> 'w \<Rightarrow> string"
  UserHomeDir :: "'w \<Rightarrow> os_error + string"
  Getwd :: "'w \<Rightarrow> os_error + string"
  MkdirAll :: "string \<Rightarrow> nat \<Rightarrow> 'w \<Rightarrow> os_error option \<times> 'w"
  WriteFile :: "string \<Rightarrow> byte list \<Rightarrow> nat \<Rightarrow> 'w \<Rightarrow> os_error option \<times> 'w"
  ReadFile :: "string \<Rightarrow> 'w \<Rightarrow> (os_error + byte list) \<times> 'w"
  Remove :: "string \<Rightarrow> 'w \<Rightarrow> os_error option \<times> 'w"
  idb_open :: "string \<Rightarrow> nat \<Rightarrow> 'w \<Rightarrow> bool \<times> 'w"
  idb_put :: "string \<Rightarrow> string \<Rightarrow> string \<Rightarrow> 'w \<Rightarrow> bool \<times> 'w"
  idb_get :: "string \<Rightarrow> string \<Rightarrow> 'w \<Rightarrow> idb_lookup \<times> 'w"
  idb_delete :: "string \<Rightarrow> string \<Rightarrow> 'w \<Rightarrow> bool \<times> 'w"
  unicode_lower :: "string \<Rightarrow> string"

section \<open>vault\_darwin.go\<close>

definition darwin_del :: "'w sys \<Rightarrow> string \<Rightarrow> string \<Rightarrow> 'w \<Rightarrow> error option \<times> 'w" where
  "darwin_del S service key w =
     (case exec_Command S ''security''
             [Arg ''delete-generic-password'', Arg ''-a'', Arg key, Arg ''-s'', Arg service] [] w of
        (cmd, w') \<Rightarrow>
          if run_failed cmd then
            (let errStr = stderr cmd in
             if Contains errStr ''could not be found'' \<or>
                Contains errStr ''SecKeychainSearchCopyNext''
             then (Some ErrNotFound, w')
             else (Some (fmt_Errorf (''vault: failed to delete key: '' @ errStr) None), w'))
          else (None, w'))"

definition darwin_set ::
  "'w sys \<Rightarrow> string \<Rightarrow> string \<Rightarrow> byte list \<Rightarrow> 'w \<Rightarrow> error option \<times> 'w" where
  "darwin_set S service key val w =
     (case darwin_del S service key w of
        (_, w1) \<Rightarrow>
          (let encoded = EncodeToString encodeStd val in
           case exec_Command S ''security''
                  [Arg ''add-generic-password'', Arg ''-a'', Arg key, Arg ''-s'', Arg service,
                   Arg ''-w'', Arg encoded, Arg ''-U''] [] w1 of
             (cmd, w2) \<Rightarrow>
               if run_failed cmd
               then (Some (fmt_Errorf (''vault: failed to set key: '' @ stderr cmd) None), w2)
               else (None, w2)))"

definition darwin_get ::
  "'w sys \<Rightarrow> string \<Rightarrow> string \<Rightarrow> 'w \<Rightarrow> (byte list \<times> error option) \<times> 'w" where
  "darwin_get S service key w =
     (case exec_Command S ''security''
             [Arg ''find-generic-password'', Arg ''-a'', Arg key, Arg ''-s'', Arg service,
              Arg ''-w''] [] w of
        (cmd, w') \<Rightarrow>
          if run_failed cmd then
            (let errStr = stderr cmd in
             if Contains errStr ''could not be found'' \<or>
                Contains errStr ''SecKeychainSearchCopyNext''
             then (([], Some ErrNotFound), w')
             else (([], Some (fmt_Errorf (''vault: failed to get key: '' @ errStr) None)), w'))
          else
            (let result = TrimSpace (stdout cmd) in
             case DecodeString encodeStd result of
               (decoded, Some n) \<Rightarrow>
                 (([], Some (fmt_Errorf ''vault: failed to decode value: ''
                               (Some (CorruptInputError n)))), w')
             | (decoded, None) \<Rightarrow> ((decoded, None), w')))"

section \<open>vault\_windows.go\<close>

text \<open>
  The two raw string literals that \<^verbatim>\<open>set\<close> and \<^verbatim>\<open>get\<close> pass to
  \<^verbatim>\<open>fmt.Sprintf\<close>, line by line: a raw literal starts with the line break after the
  opening back quote, and every line ends with one.
\<close>

definition script_text :: "string list \<Rightarrow> string" where
  "script_text ls = [CHR 0x0A] @ concat (map (\<lambda>l. l @ [CHR 0x0A]) ls)"

definition set_script :: string where
  \<open>set_script = script_text
     [''$credName = '%s'' @ [CHR 0x27],
      ''$credValue = '%s'' @ [CHR 0x27],
      ''$securePassword = ConvertTo-SecureString -String $credValue -AsPlainText -Force'',
      ''$credential = New-Object System.Management.Automation.PSCredential($credName, $securePassword)'',
      [],
      ''# Remove existing credential if it exists'',
      ''try {'',
      ''    cmdkey /delete:$credName 2>$null'',
      ''} catch {}'',
      [],
      ''# Add new credential using cmdkey'',
      ''$bytes = [System.Text.Encoding]::UTF8.GetBytes($credValue)'',
      ''cmdkey /generic:$credName /user:$credName /pass:$credValue'',
      ''if ($LASTEXITCODE -ne 0) {'',
      ''    exit 1'',
      ''}'']\<close>

definition get_script :: string where
  \<open>get_script = script_text
     [''$output = cmdkey /list:"%s" 2>&1'',
      ''if ($output -match "NONE") {'',
      ''    exit 1'',
      ''}'',
      [],
      ''# Use .NET to read the credential'',
      ''Add-Type -AssemblyName System.Runtime.InteropServices'',
      [],
      ''$sig = @"'',
      ''[DllImport("advapi32.dll", SetLastError = true, CharSet = CharSet.Unicode)]'',
      ''public static extern bool CredRead(string target, int type, int reservedFlag, out IntPtr credentialPtr);'',
      [],
      ''[DllImport("advapi32.dll", SetLastError = true)]'',
      ''public static extern bool CredFree(IntPtr cred);'',
      ''"@'',
      [],
      ''$advapi32 = Add-Type -MemberDefinition $sig -Namespace "ADVAPI32" -Name "Util" -PassThru'',
      [],
      ''$credPtr = [IntPtr]::Zero'',
      ''$result = $advapi32::CredRead("%s", 1, 0, [ref]$credPtr)'',
      [],
      ''if (-not $result) {'',
      ''    exit 1'',
      ''}'',
      [],
      ''$cred = [System.Runtime.InteropServices.Marshal]::PtrToStructure($credPtr, [Type][System.Runtime.InteropServices.ComTypes.CREDENTIAL])'',
      [],
      ''# Read credential blob'',
      ''$blob = New-Object byte[] $cred.CredentialBlobSize'',
      ''[System.Runtime.InteropServices.Marshal]::Copy($cred.CredentialBlob, $blob, 0, $cred.CredentialBlobSize)'',
      ''$password = [System.Text.Encoding]::Unicode.GetString($blob)'',
      [],
      ''$advapi32::CredFree($credPtr)'',
      ''Write-Output $password'']\<close>

definition windows_set ::
  "'w sys \<Rightarrow> string \<Rightarrow> string \<Rightarrow> byte list \<Rightarrow> 'w \<Rightarrow> error option \<times> 'w" where
  "windows_set S service key val w =
     (let credName = service @ ''/'' @ key;
          encodedValue = EncodeToString encodeStd val;
          script = Sprintf set_script [credName, encodedValue]
      in case exec_Command S ''powershell''
                [Arg ''-NoProfile'', Arg ''-NonInteractive'', Arg ''-Command'', script] [] w of
           (cmd, w') \<Rightarrow>
             if run_failed cmd
             then (Some (fmt_Errorf (''vault: failed to set key: '' @ stderr cmd) None), w')
             else (None, w'))"

definition windows_get ::
  "'w sys \<Rightarrow> string \<Rightarrow> string \<Rightarrow> 'w \<Rightarrow> (byte list \<times> error option) \<times> 'w" where
  "windows_get S service key w =
     (let credName = service @ ''/'' @ key;
          script = Sprintf get_script [credName, credName]
      in case exec_Command S ''powershell''
                [Arg ''-NoProfile'', Arg ''-NonInteractive'', Arg ''-Command'', script] [] w of
           (cmd, w') \<Rightarrow>
             if run_failed cmd then (([], Some ErrNotFound), w')
             else
               (let result = TrimSpace (stdout cmd) in
                if result = [] then (([], Some ErrNotFound), w')
                else
                  case DecodeString encodeStd result of
                    (decoded, Some n) \<Rightarrow>
                      (([], Some (fmt_Errorf ''vault: failed to decode value: ''
                                    (Some (CorruptInputError n)))), w')
                  | (decoded, None) \<Rightarrow> ((decoded, None), w')))"

definition windows_del :: "'w sys \<Rightarrow> string \<Rightarrow> string \<Rightarrow> 'w \<Rightarrow> error option \<times> 'w" where
  "windows_del S service key w =
     (let credName = service @ ''/'' @ key
      in case exec_Command S ''cmdkey'' [Arg (''/delete:'' @ credName)] [] w of
           (cmd, w') \<Rightarrow>
             if run_failed cmd then
               (let errStr = stderr cmd in
                if Contains (ToLower (unicode_lower S) errStr) ''not found'' \<or>
                   Contains (ToLower (unicode_lower S) errStr) ''none''
                then (Some ErrNotFound, w')
                else (Some (fmt_Errorf (''vault: failed to delete key: '' @ errStr) None), w'))
             else (None, w'))"

section \<open>The file store of the iOS, Android and Linux files\<close>

text \<open>
  \<^verbatim>\<open>getStorageDir\<close> differs between the three files; it returns the directory together
  with the result of \<^verbatim>\<open>os.MkdirAll(dir, 0o700)\<close>.
\<close>

definition getStorageDir_ios :: "'w sys \<Rightarrow> 'w \<Rightarrow> (string \<times> error option) \<times> 'w" where
  "getStorageDir_ios S w =
     (case UserHomeDir S w of
        Inl e \<Rightarrow> (([], Some (OsError e)), w)
      | Inr home \<Rightarrow>
          (let dir = Join [home, ''Library'', ''Application Support'', ''vault-secrets'']
           in case MkdirAll S dir 0x1C0 w of
                (err, w') \<Rightarrow> ((dir, map_option OsError err), w')))"

definition getStorageDir_android :: "'w sys \<Rightarrow> 'w \<Rightarrow> (string \<times> error option) \<times> 'w" where
  "getStorageDir_android S w =
     (let dir = Getenv S ''ANDROID_DATA'' w in
      if dir = [] then
        (case Getwd S w of
           Inl e \<Rightarrow> (([], Some (OsError e)), w)
         | Inr cwd \<Rightarrow>
             (let dir = Join [cwd, ''.vault-secrets'']
              in case MkdirAll S dir 0x1C0 w of
                   (err, w') \<Rightarrow> ((dir, map_option OsError err), w')))
      else
        (let dir = Join [dir, ''vault-secrets'']
         in case MkdirAll S dir 0x1C0 w of
              (err, w') \<Rightarrow> ((dir, map_option OsError err), w')))"

definition getStorageDir_linux :: "'w sys \<Rightarrow> 'w \<Rightarrow> (string \<times> error option) \<times> 'w" where
  "getStorageDir_linux S w =
     (let dataHome = Getenv S ''XDG_DATA_HOME'' w in
      if dataHome = [] then
        (case UserHomeDir S w of
           Inl e \<Rightarrow> (([], Some (OsError e)), w)
         | Inr home \<Rightarrow>
             (let dataHome = Join [home, ''.local'', ''share''];
                  dir = Join [dataHome, ''vault-secrets'']
              in case MkdirAll S dir 0x1C0 w of
                   (err, w') \<Rightarrow> ((dir, map_option OsError err), w')))
      else
        (let dir = Join [dataHome, ''vault-secrets'']
         in case MkdirAll S dir 0x1C0 w of
              (err, w') \<Rightarrow> ((dir, map_option OsError err), w')))"

text \<open>
  The three files carry the same text for \<^verbatim>\<open>getStoragePath\<close> and for the store, read
  and delete functions (\<^verbatim>\<open>set\<close>, \<^verbatim>\<open>get\<close>, \<^verbatim>\<open>del\<close> on iOS and Android,
  \<^verbatim>\<open>setFileStorage\<close>, \<^verbatim>\<open>getFileStorage\<close>, \<^verbatim>\<open>deleteFileStorage\<close> on Linux); the model has
  them once, with the file's \<^verbatim>\<open>getStorageDir\<close> as the parameter \<open>gsd\<close>.
\<close>

type_synonym 'w storage_dir = "'w sys \<Rightarrow> 'w \<Rightarrow> (string \<times> error option) \<times> 'w"

definition getStoragePath ::
  "'w storage_dir \<Rightarrow> 'w sys \<Rightarrow> string \<Rightarrow> string \<Rightarrow> 'w \<Rightarrow> (string \<times> error option) \<times> 'w" where
  "getStoragePath gsd S service key w =
     (case gsd S w of
        ((dir, Some e), w') \<Rightarrow> (([], Some e), w')
      | ((dir, None), w') \<Rightarrow>
          (let filename = EncodeToString encodeURL (bytes_of_string (service @ ''/'' @ key))
           in ((Join [dir, filename], None), w')))"

definition setFileStorage ::
  "'w storage_dir \<Rightarrow> 'w sys \<Rightarrow> string \<Rightarrow> string \<Rightarrow> byte list \<Rightarrow> 'w \<Rightarrow> error option \<times> 'w" where
  "setFileStorage gsd S service key val w =
     (case getStoragePath gsd S service key w of
        ((path, Some e), w1) \<Rightarrow>
          (Some (fmt_Errorf ''vault: failed to get storage path: '' (Some e)), w1)
      | ((path, None), w1) \<Rightarrow>
          (let encoded = EncodeToString encodeStd val in
           case WriteFile S path (bytes_of_string encoded) 0x180 w1 of
             (Some e, w2) \<Rightarrow>
               (Some (fmt_Errorf ''vault: failed to write secret: '' (Some (OsError e))), w2)
           | (None, w2) \<Rightarrow> (None, w2)))"

definition getFileStorage ::
  "'w storage_dir \<Rightarrow> 'w sys \<Rightarrow> string \<Rightarrow> string \<Rightarrow> 'w \<Rightarrow> (byte list \<times> error option) \<times> 'w" where
  "getFileStorage gsd S service key w =
     (case getStoragePath gsd S service key w of
        ((path, Some e), w1) \<Rightarrow>
          (([], Some (fmt_Errorf ''vault: failed to get storage path: '' (Some e))), w1)
      | ((path, None), w1) \<Rightarrow>
          (case ReadFile S path w1 of
             (Inl e, w2) \<Rightarrow>
               if IsNotExist e then (([], Some ErrNotFound), w2)
               else (([], Some (fmt_Errorf ''vault: failed to read secret: '' (Some (OsError e)))), w2)
           | (Inr data, w2) \<Rightarrow>
               (case DecodeString encodeStd (TrimSpace (string_of_bytes data)) of
                  (decoded, Some n) \<Rightarrow>
                    (([], Some (fmt_Errorf ''vault: failed to decode secret: ''
                                  (Some (CorruptInputError n)))), w2)
                | (decoded, None) \<Rightarrow> ((decoded, None), w2))))"

definition deleteFileStorage ::
  "'w storage_dir \<Rightarrow> 'w sys \<Rightarrow> string \<Rightarrow> string \<Rightarrow> 'w \<Rightarrow> error option \<times> 'w" where
  "deleteFileStorage gsd S service key w =
     (case getStoragePath gsd S service key w of
        ((path, Some e), w1) \<Rightarrow>
          (Some (fmt_Errorf ''vault: failed to get storage path: '' (Some e)), w1)
      | ((path, None), w1) \<Rightarrow>
          (case Remove S path w1 of
             (Some e, w2) \<Rightarrow>
               if IsNotExist e then (Some ErrNotFound, w2)
               else (Some (fmt_Errorf ''vault: failed to delete secret: '' (Some (OsError e))), w2)
           | (None, w2) \<Rightarrow> (None, w2)))"

section \<open>The Linux file: secret-tool, with the file store as fallback\<close>

definition hasSecretTool :: "'w sys \<Rightarrow> 'w \<Rightarrow> bool" where
  "hasSecretTool S w = LookPath S ''secret-tool'' w"

definition setSecretTool ::
  "'w sys \<Rightarrow> string \<Rightarrow> string \<Rightarrow> byte list \<Rightarrow> 'w \<Rightarrow> error option \<times> 'w" where
  "setSecretTool S service key val w =
     (case exec_Command S ''secret-tool''
             [Arg ''store'', Arg ''--label'', Arg (service @ ''/'' @ key),
              Arg ''service'', Arg service, Arg ''key'', Arg key] val w of
        (cmd, w') \<Rightarrow>
          if run_failed cmd
          then (Some (fmt_Errorf (''vault: failed to set key: '' @ stderr cmd) None), w')
          else (None, w'))"

definition getSecretTool ::
  "'w sys \<Rightarrow> string \<Rightarrow> string \<Rightarrow> 'w \<Rightarrow> (byte list \<times> error option) \<times> 'w" where
  "getSecretTool S service key w =
     (case exec_Command S ''secret-tool''
             [Arg ''lookup'', Arg ''service'', Arg service, Arg ''key'', Arg key] [] w of
        (cmd, w') \<Rightarrow>
          if run_failed cmd then
            (if length (stdout cmd) = 0 then (([], Some ErrNotFound), w')
             else (([], Some (fmt_Errorf (''vault: failed to get key: '' @ stderr cmd) None)), w'))
          else
            (let result = bytes_of_string (stdout cmd) in
             if length result = 0 then (([], Some ErrNotFound), w')
             else ((result, None), w')))"

definition deleteSecretTool :: "'w sys \<Rightarrow> string \<Rightarrow> string \<Rightarrow> 'w \<Rightarrow> error option \<times> 'w" where
  "deleteSecretTool S service key w =
     (case exec_Command S ''secret-tool''
             [Arg ''clear'', Arg ''service'', Arg service, Arg ''key'', Arg key] [] w of
        (cmd, w') \<Rightarrow>
          if run_failed cmd
          then (Some (fmt_Errorf (''vault: failed to delete key: '' @ stderr cmd) None), w')
          else (None, w'))"

definition linux_set ::
  "'w sys \<Rightarrow> string \<Rightarrow> string \<Rightarrow> byte list \<Rightarrow> 'w \<Rightarrow> error option \<times> 'w" where
  "linux_set S service key val w =
     (if hasSecretTool S w then setSecretTool S service key val w
      else setFileStorage getStorageDir_linux S service key val w)"

definition linux_get ::
  "'w sys \<Rightarrow> string \<Rightarrow> string \<Rightarrow> 'w \<Rightarrow> (byte list \<times> error option) \<times> 'w" where
  "linux_get S service key w =
     (if hasSecretTool S w then getSecretTool S service key w
      else getFileStorage getStorageDir_linux S service key w)"

definition linux_del :: "'w sys \<Rightarrow> string \<Rightarrow> string \<Rightarrow> 'w \<Rightarrow> error option \<times> 'w" where
  "linux_del S service key w =
     (if hasSecretTool S w then deleteSecretTool S service key w
      else deleteFileStorage getStorageDir_linux S service key w)"

section \<open>vault\_js.go\<close>

definition dbName :: string where
  "dbName = ''vault-secrets''"

definition storeName :: string where
  "storeName = ''secrets''"

text \<open>
  \<^verbatim>\<open>withStore\<close> opens the database; \<^verbatim>\<open>onerror\<close> ends the call, \<^verbatim>\<open>onsuccess\<close> runs
  \<open>fn\<close> on the object store and passes its error on. Each function sends one value on
  its channel and returns what it receives.
\<close>

definition withStore ::
  "'w sys \<Rightarrow> string \<Rightarrow> ('w \<Rightarrow> error option \<times> 'w) \<Rightarrow> 'w \<Rightarrow> error option \<times> 'w" where
  "withStore S mode fn w =
     (case idb_open S dbName 1 w of
        (True, w') \<Rightarrow> fn w'
      | (False, w') \<Rightarrow> (Some (errors_New ''vault: failed to open IndexedDB''), w'))"

definition js_set ::
  "'w sys \<Rightarrow> string \<Rightarrow> string \<Rightarrow> byte list \<Rightarrow> 'w \<Rightarrow> error option \<times> 'w" where
  "js_set S service key val w =
     (let encoded = EncodeToString encodeStd val;
          storeKey = service @ ''/'' @ key
      in withStore S ''readwrite''
           (\<lambda>w. case idb_put S storeName storeKey encoded w of
                   (True, w') \<Rightarrow> (None, w')
                 | (False, w') \<Rightarrow> (Some (errors_New ''vault: failed to set key in IndexedDB''), w'))
           w)"

text \<open>
  \<^verbatim>\<open>get\<close> keeps the decoded bytes in the variable \<^verbatim>\<open>result\<close>, which the callback sets
  only after a successful decode, and returns it next to the error of \<^verbatim>\<open>withStore\<close>;
  the model has the body of \<open>withStore\<close> in place, to return both.
\<close>

definition js_get ::
  "'w sys \<Rightarrow> string \<Rightarrow> string \<Rightarrow> 'w \<Rightarrow> (byte list \<times> error option) \<times> 'w" where
  "js_get S service key w =
     (let storeKey = service @ ''/'' @ key
      in case idb_open S dbName 1 w of
           (False, w') \<Rightarrow> (([], Some (errors_New ''vault: failed to open IndexedDB'')), w')
         | (True, w') \<Rightarrow>
             (case idb_get S storeName storeKey w' of
                (IdbError, w'') \<Rightarrow>
                  (([], Some (errors_New ''vault: failed to get key from IndexedDB'')), w'')
              | (IdbUndefined, w'') \<Rightarrow> (([], Some ErrNotFound), w'')
              | (IdbRecord encoded, w'') \<Rightarrow>
                  (case DecodeString encodeStd encoded of
                     (decoded, Some n) \<Rightarrow> (([], Some (CorruptInputError n)), w'')
                   | (decoded, None) \<Rightarrow> ((decoded, None), w''))))"

definition js_del :: "'w sys \<Rightarrow> string \<Rightarrow> string \<Rightarrow> 'w \<Rightarrow> error option \<times> 'w" where
  "js_del S service key w =
     (let storeKey = service @ ''/'' @ key
      in withStore S ''readwrite''
           (\<lambda>w. case idb_get S storeName storeKey w of
                   (IdbError, w') \<Rightarrow>
                     (Some (errors_New ''vault: failed to check key in IndexedDB''), w')
                 | (IdbUndefined, w') \<Rightarrow> (Some ErrNotFound, w')
                 | (IdbRecord v, w') \<Rightarrow>
                     (case idb_delete S storeName storeKey w' of
                        (True, w'') \<Rightarrow> (None, w'')
                      | (False, w'') \<Rightarrow>
                          (Some (errors_New ''vault: failed to delete key from IndexedDB''), w'')))
           w)"

section \<open>vault.go\<close>

text \<open>
  One of the six files is compiled in, chosen by its build constraint; \<open>backend_set\<close>,
  \<open>backend_get\<close> and \<open>backend_del\<close> are the package's \<^verbatim>\<open>set\<close>, \<^verbatim>\<open>get\<close> and
  \<^verbatim>\<open>del\<close> on each platform.
\<close>

datatype platform = Darwin | Windows | Linux | IOS | Android | JS

fun backend_set ::
  "platform \<Rightarrow> 'w sys \<Rightarrow> string \<Rightarrow> string \<Rightarrow> byte list \<Rightarrow> 'w \<Rightarrow> error option \<times> 'w" where
  "backend_set Darwin = darwin_set"
| "backend_set Windows = windows_set"
| "backend_set Linux = linux_set"
| "backend_set IOS = setFileStorage getStorageDir_ios"
| "backend_set Android = setFileStorage getStorageDir_android"
| "backend_set JS = js_set"

fun backend_get ::
  "platform \<Rightarrow> 'w sys \<Rightarrow> string \<Rightarrow> string \<Rightarrow> 'w \<Rightarrow> (byte list \<times> error option) \<times> 'w" where
  "backend_get Darwin = darwin_get"
| "backend_get Windows = windows_get"
| "backend_get Linux = linux_get"
| "backend_get IOS = getFileStorage getStorageDir_ios"
| "backend_get Android = getFileStorage getStorageDir_android"
| "backend_get JS = js_get"

fun backend_del ::
  "platform \<Rightarrow> 'w sys \<Rightarrow> string \<Rightarrow> string \<Rightarrow> 'w \<Rightarrow> error option \<times> 'w" where
  "backend_del Darwin = darwin_del"
| "backend_del Windows = windows_del"
| "backend_del Linux = linux_del"
| "backend_del IOS = deleteFileStorage getStorageDir_ios"
| "backend_del Android = deleteFileStorage getStorageDir_android"
| "backend_del JS = js_del"

text \<open>
  The exported functions, over the \<^verbatim>\<open>set\<close>, \<^verbatim>\<open>get\<close> or \<^verbatim>\<open>del\<close> they are linked
  with.
\<close>

definition facade_Set ::
  "(string \<Rightarrow> string \<Rightarrow> byte list \<Rightarrow> 'w \<Rightarrow> error option \<times> 'w) \<Rightarrow>
   string \<Rightarrow> string \<Rightarrow> byte list \<Rightarrow> 'w \<Rightarrow> error option \<times> 'w" where
  "facade_Set set_impl service key val w =
     (if service = [] \<or> key = [] then (Some ErrInvalidKey, w)
      else if length val = 0 then (Some ErrInvalidValue, w)
      else set_impl service key val w)"

definition facade_Get ::
  "(string \<Rightarrow> string \<Rightarrow> 'w \<Rightarrow> (byte list \<times> error option) \<times> 'w) \<Rightarrow>
   string \<Rightarrow> string \<Rightarrow> 'w \<Rightarrow> (byte list \<times> error option) \<times> 'w" where
  "facade_Get get_impl service key w =
     (if service = [] \<or> key = [] then (([], Some ErrInvalidKey), w)
      else get_impl service key w)"

definition facade_Del ::
  "(string \<Rightarrow> string \<Rightarrow> 'w \<Rightarrow> error option \<times> 'w) \<Rightarrow>
   string \<Rightarrow> string \<Rightarrow> 'w \<Rightarrow> error option \<times> 'w" where
  "facade_Del del_impl service key w =
     (if service = [] \<or> key = [] then (Some ErrInvalidKey, w)
      else del_impl service key w)"

definition vault_Set ::
  "platform \<Rightarrow> 'w sys \<Rightarrow> string \<Rightarrow> string \<Rightarrow> byte list \<Rightarrow> 'w \<Rightarrow> error option \<times> 'w" where
  "vault_Set p S = facade_Set (backend_set p S)"

definition vault_Get ::
  "platform \<Rightarrow> 'w sys \<Rightarrow> string \<Rightarrow> string \<Rightarrow> 'w \<Rightarrow> (byte list \<times> error option) \<times> 'w" where
  "vault_Get p S = facade_Get (backend_get p S)"

definition vault_Del ::
  "platform \<Rightarrow> 'w sys \<Rightarrow> string \<Rightarrow> string \<Rightarrow> 'w \<Rightarrow> error option \<times> 'w" where
  "vault_Del p S = facade_Del (backend_del p S)"

section \<open>A world with well-behaved tools\<close>

text \<open>
  A concrete world to run the adapters in: the keychain, the keyring, the credential
  manager and the object store are maps that keep what they are given, the file
  system is a map from paths to contents next to a set of directories, and the
  environment is fixed. The tools answer the way the adapters expect of them:
  \<^item> \<^verbatim>\<open>security\<close> prints the password and a newline, and fails with the
    \<^verbatim>\<open>SecKeychainSearchCopyNext\<close> diagnostic when the item is absent;
  \<^item> \<^verbatim>\<open>secret-tool lookup\<close> writes the secret as it is and exits with status 1 and no
    output when there is none; \<^verbatim>\<open>secret-tool clear\<close> exits with status 0 in both cases;
  \<^item> PowerShell run on \<open>set_script\<close> stores the value under the name, run on
    \<open>get_script\<close> it prints the value and a line end or exits with status 1;
    \<^verbatim>\<open>cmdkey /delete\<close> fails with \<^verbatim>\<open>Element not found\<close>.
  Whether \<^verbatim>\<open>secret-tool\<close> is installed is part of the world, so that it can change
  between two calls.
\<close>

record world =
  secret_tool_installed :: bool
  environ :: "string \<Rightarrow> string"
  home_dir :: "os_error + string"
  work_dir :: "os_error + string"
  directories :: "string set"
  files :: "string \<rightharpoonup> byte list"
  keychain :: "string \<times> string \<rightharpoonup> string"
  keyring :: "string \<times> string \<rightharpoonup> byte list"
  credentials :: "string \<rightharpoonup> string"
  object_store :: "string \<rightharpoonup> string"

definition exited :: "bool \<Rightarrow> string \<Rightarrow> string \<Rightarrow> proc" where
  "exited failed out err = \<lparr>run_failed = failed, stdout = out, stderr = err\<rparr>"

definition plain_args :: "arg list \<Rightarrow> string list" where
  "plain_args args = map (\<lambda>a. case a of Arg x \<Rightarrow> x | _ \<Rightarrow> []) args"

definition keychain_missing :: string where
  "keychain_missing =
     ''security: SecKeychainSearchCopyNext: The specified item could not be found in the keychain.''
     @ [CHR 0x0A]"

definition security_tool :: "arg list \<Rightarrow> world \<Rightarrow> proc \<times> world" where
  "security_tool args w =
     (let a = plain_args args in
      if length a = 8 \<and> a ! 0 = ''add-generic-password'' \<and> a ! 1 = ''-a'' \<and> a ! 3 = ''-s'' \<and>
         a ! 5 = ''-w'' \<and> a ! 7 = ''-U''
      then (exited False [] [], w\<lparr>keychain := (keychain w)((a ! 4, a ! 2) \<mapsto> a ! 6)\<rparr>)
      else if length a = 6 \<and> a ! 0 = ''find-generic-password'' \<and> a ! 1 = ''-a'' \<and>
              a ! 3 = ''-s'' \<and> a ! 5 = ''-w''
      then (case keychain w (a ! 4, a ! 2) of
              None \<Rightarrow> (exited True [] keychain_missing, w)
            | Some password \<Rightarrow> (exited False (password @ [CHR 0x0A]) [], w))
      else if length a = 5 \<and> a ! 0 = ''delete-generic-password'' \<and> a ! 1 = ''-a'' \<and>
              a ! 3 = ''-s''
      then (case keychain w (a ! 4, a ! 2) of
              None \<Rightarrow> (exited True [] keychain_missing, w)
            | Some password \<Rightarrow>
                (exited False [] [], w\<lparr>keychain := (keychain w)((a ! 4, a ! 2) := None)\<rparr>))
      else (exited True [] ''usage'', w))"

definition secret_tool :: "arg list \<Rightarrow> byte list \<Rightarrow> world \<Rightarrow> proc \<times> world" where
  "secret_tool args stdin w =
     (let a = plain_args args in
      if length a = 7 \<and> a ! 0 = ''store'' \<and> a ! 1 = ''--label'' \<and> a ! 3 = ''service'' \<and>
         a ! 5 = ''key''
      then (exited False [] [], w\<lparr>keyring := (keyring w)((a ! 4, a ! 6) \<mapsto> stdin)\<rparr>)
      else if length a = 5 \<and> a ! 0 = ''lookup'' \<and> a ! 1 = ''service'' \<and> a ! 3 = ''key''
      then (case keyring w (a ! 2, a ! 4) of
              None \<Rightarrow> (exited True [] [], w)
            | Some secret \<Rightarrow> (exited False (string_of_bytes secret) [], w))
      else if length a = 5 \<and> a ! 0 = ''clear'' \<and> a ! 1 = ''service'' \<and> a ! 3 = ''key''
      then (exited False [] [], w\<lparr>keyring := (keyring w)((a ! 2, a ! 4) := None)\<rparr>)
      else (exited True [] ''usage'', w))"

definition powershell :: "arg list \<Rightarrow> world \<Rightarrow> proc \<times> world" where
  "powershell args w =
     (if length args = 4 \<and> take 3 args = [Arg ''-NoProfile'', Arg ''-NonInteractive'', Arg ''-Command'']
      then (case args ! 3 of
              Sprintf format operands \<Rightarrow>
                if format = set_script \<and> length operands = 2 then
                  (exited False [] [],
                   w\<lparr>credentials := (credentials w)(operands ! 0 \<mapsto> operands ! 1)\<rparr>)
                else if format = get_script \<and> length operands = 2 then
                  (if credentials w (operands ! 0) = None then (exited True [] [], w)
                   else case credentials w (operands ! 1) of
                          None \<Rightarrow> (exited True [] [], w)
                        | Some password \<Rightarrow>
                            (exited False (password @ [CHR 0x0D, CHR 0x0A]) [], w))
                else (exited True [] ''script'', w)
            | Arg x \<Rightarrow> (exited True [] ''script'', w))
      else (exited True [] ''usage'', w))"

definition cmdkey :: "arg list \<Rightarrow> world \<Rightarrow> proc \<times> world" where
  "cmdkey args w =
     (let a = plain_args args in
      if length a = 1 \<and> take 8 (a ! 0) = ''/delete:''
      then (case credentials w (drop 8 (a ! 0)) of
              None \<Rightarrow> (exited True [] ''CMDKEY: Element not found.'', w)
            | Some password \<Rightarrow>
                (exited False [] [],
                 w\<lparr>credentials := (credentials w)(drop 8 (a ! 0) := None)\<rparr>))
      else (exited True [] ''usage'', w))"

definition ideal_exec :: "string \<Rightarrow> arg list \<Rightarrow> byte list \<Rightarrow> world \<Rightarrow> proc \<times> world" where
  "ideal_exec name args stdin w =
     (if name = ''security'' then security_tool args w
      else if name = ''secret-tool'' then secret_tool args stdin w
      else if name = ''powershell'' then powershell args w
      else if name = ''cmdkey'' then cmdkey args w
      else (exited True [] [], w))"

text \<open>
  The file system: a directory can be made unless a file has its name, a file can be
  written unless a directory has its name, and reading or removing a path that is neither
  is the error that \<^verbatim>\<open>os.IsNotExist\<close> recognises.
\<close>

definition ideal_MkdirAll :: "string \<Rightarrow> nat \<Rightarrow> world \<Rightarrow> os_error option \<times> world" where
  "ideal_MkdirAll dir perm w =
     (if files w dir \<noteq> None then (Some (OtherOsError ''not a directory''), w)
      else (None, w\<lparr>directories := insert dir (directories w)\<rparr>))"

definition ideal_WriteFile ::
  "string \<Rightarrow> byte list \<Rightarrow> nat \<Rightarrow> world \<Rightarrow> os_error option \<times> world" where
  "ideal_WriteFile path data perm w =
     (if path \<in> directories w then (Some (OtherOsError ''is a directory''), w)
      else (None, w\<lparr>files := (files w)(path \<mapsto> data)\<rparr>))"

definition ideal_ReadFile :: "string \<Rightarrow> world \<Rightarrow> (os_error + byte list) \<times> world" where
  "ideal_ReadFile path w =
     (case files w path of
        Some data \<Rightarrow> (Inr data, w)
      | None \<Rightarrow>
          if path \<in> directories w then (Inl (OtherOsError ''is a directory''), w)
          else (Inl ErrNotExist, w))"

definition ideal_Remove :: "string \<Rightarrow> world \<Rightarrow> os_error option \<times> world" where
  "ideal_Remove path w =
     (case files w path of
        Some data \<Rightarrow> (None, w\<lparr>files := (files w)(path := None)\<rparr>)
      | None \<Rightarrow>
          if path \<in> directories w then (None, w\<lparr>directories := directories w - {path}\<rparr>)
          else (Some ErrNotExist, w))"

definition ideal_idb_put :: "string \<Rightarrow> string \<Rightarrow> string \<Rightarrow> world \<Rightarrow> bool \<times> world" where
  "ideal_idb_put store k v w = (True, w\<lparr>object_store := (object_store w)(k \<mapsto> v)\<rparr>)"

definition ideal_idb_get :: "string \<Rightarrow> string \<Rightarrow> world \<Rightarrow> idb_lookup \<times> world" where
  "ideal_idb_get store k w =
     (case object_store w k of None \<Rightarrow> (IdbUndefined, w) | Some v \<Rightarrow> (IdbRecord v, w))"

definition ideal_idb_delete :: "string \<Rightarrow> string \<Rightarrow> world \<Rightarrow> bool \<times> world" where
  "ideal_idb_delete store k w = (True, w\<lparr>object_store := (object_store w)(k := None)\<rparr>)"

definition ideal :: "world sys" where
  "ideal =
     \<lparr>exec_Command = ideal_exec,
      LookPath = (\<lambda>name w. name = ''secret-tool'' \<and> secret_tool_installed w),
      Getenv = (\<lambda>name w. environ w name),
      UserHomeDir = home_dir,
      Getwd = work_dir,
      MkdirAll = ideal_MkdirAll,
      WriteFile = ideal_WriteFile,
      ReadFile = ideal_ReadFile,
      Remove = ideal_Remove,
      idb_open = (\<lambda>name version w. (True, w)),
      idb_put = ideal_idb_put,
      idb_get = ideal_idb_get,
      idb_delete = ideal_idb_delete,
      unicode_lower = (\<lambda>s. s)\<rparr>"

text \<open>An empty world on a machine without \<^verbatim>\<open>secret-tool\<close>.\<close>

definition fresh :: world where
  "fresh =
     \<lparr>secret_tool_installed = False,
      environ = (\<lambda>name. []),
      home_dir = Inr ''/home/user'',
      work_dir = Inr ''/data/app'',
      directories = {},
      files = Map.empty,
      keychain = Map.empty,
      keyring = Map.empty,
      credentials = Map.empty,
      object_store = Map.empty\<rparr>"

section \<open>Notions used in the statements\<close>

text \<open>What \<^verbatim>\<open>NewEncoding\<close> asks of an alphabet, as far as decoding needs it.\<close>

definition alphabet_ok :: "string \<Rightarrow> bool" where
  "alphabet_ok enc = (distinct enc \<and> length enc = 64 \<and> padChar \<notin> set enc)"

text \<open>An ASCII byte that is not white space.\<close>

definition plain_char :: "char \<Rightarrow> bool" where
  "plain_char c = ((of_char c :: nat) < RuneSelf \<and> \<not> asciiSpace c)"

text \<open>
  A backend that only writes down how it was called, to observe what the exported
  functions pass on.
\<close>

datatype call = SetCall string string "byte list" | GetCall string string | DelCall string string

definition recording_set ::
  "string \<Rightarrow> string \<Rightarrow> byte list \<Rightarrow> call list \<Rightarrow> error option \<times> call list" where
  "recording_set service key val log = (None, log @ [SetCall service key val])"

definition recording_get ::
  "string \<Rightarrow> string \<Rightarrow> call list \<Rightarrow> (byte list \<times> error option) \<times> call list" where
  "recording_get service key log = (([], Some ErrNotFound), log @ [GetCall service key])"

definition recording_del :: "string \<Rightarrow> string \<Rightarrow> call list \<Rightarrow> error option \<times> call list" where
  "recording_del service key log = (Some ErrNotFound, log @ [DelCall service key])"

fun well_formed :: "call \<Rightarrow> bool" where
  "well_formed (SetCall service key val) = (service \<noteq> [] \<and> key \<noteq> [] \<and> val \<noteq> [])"
| "well_formed (GetCall service key) = (service \<noteq> [] \<and> key \<noteq> [])"
| "well_formed (DelCall service key) = (service \<noteq> [] \<and> key \<noteq> [])"

text \<open>
  The errors an adapter hands back: \<^verbatim>\<open>ErrNotFound\<close>, or a value made by
  \<^verbatim>\<open>fmt.Errorf\<close>, \<^verbatim>\<open>errors.New\<close> or the base64 decoder.
\<close>

fun is_backend_error :: "error \<Rightarrow> bool" where
  "is_backend_error ErrNotFound = True"
| "is_backend_error ErrInvalidKey = False"
| "is_backend_error ErrInvalidValue = False"
| "is_backend_error (CorruptInputError n) = True"
| "is_backend_error (OsError e) = False"
| "is_backend_error (errors_New m) = True"
| "is_backend_error (fmt_Errorf m e) = True"

text \<open>
  Two more worlds for the examples: one where no process can be run, and one whose
  stores hold text that is not base64 under the identity \<^verbatim>\<open>("app", "k")\<close>.
\<close>

definition denied :: "world sys" where
  "denied =
     ideal\<lparr>exec_Command := (\<lambda>name args stdin w. (exited True [] ''Access is denied.'', w))\<rparr>"

definition corrupted :: world where
  "corrupted = fresh
     \<lparr>files := [''/home/user/.local/share/vault-secrets/YXBwL2s='' \<mapsto> bytes_of_string ''%%%''],
      keychain := [(''app'', ''k'') \<mapsto> ''%%%''],
      credentials := [''app/k'' \<mapsto> ''%%%''],
      object_store := [''app/k'' \<mapsto> ''%%%'']\<rparr>"

section \<open>Notions for the file store, paths and runs\<close>

text \<open>
  In the world of well-behaved tools each \<^verbatim>\<open>getStorageDir\<close> is \<open>ideal_storage_dir\<close> of
  a directory that depends on the environment alone (\<open>env_only\<close>).
\<close>

definition ideal_storage_dir ::
  "(world \<Rightarrow> error + string) \<Rightarrow> world \<Rightarrow> (string \<times> error option) \<times> world" where
  "ideal_storage_dir root w =
     (case root w of
        Inl e \<Rightarrow> (([], Some e), w)
      | Inr dir \<Rightarrow>
          (case ideal_MkdirAll dir 0x1C0 w of (err, w') \<Rightarrow> ((dir, map_option OsError err), w')))"

definition root_ios :: "world \<Rightarrow> error + string" where
  "root_ios w =
     (case home_dir w of
        Inl e \<Rightarrow> Inl (OsError e)
      | Inr home \<Rightarrow> Inr (Join [home, ''Library'', ''Application Support'', ''vault-secrets'']))"

definition root_android :: "world \<Rightarrow> error + string" where
  "root_android w =
     (if environ w ''ANDROID_DATA'' = [] then
        (case work_dir w of
           Inl e \<Rightarrow> Inl (OsError e)
         | Inr cwd \<Rightarrow> Inr (Join [cwd, ''.vault-secrets'']))
      else Inr (Join [environ w ''ANDROID_DATA'', ''vault-secrets'']))"

definition root_linux :: "world \<Rightarrow> error + string" where
  "root_linux w =
     (if environ w ''XDG_DATA_HOME'' = [] then
        (case home_dir w of
           Inl e \<Rightarrow> Inl (OsError e)
         | Inr home \<Rightarrow> Inr (Join [Join [home, ''.local'', ''share''], ''vault-secrets'']))
      else Inr (Join [environ w ''XDG_DATA_HOME'', ''vault-secrets'']))"


text \<open>The file name \<^verbatim>\<open>getStoragePath\<close> derives from an identity.\<close>

definition file_name :: "string \<Rightarrow> string \<Rightarrow> string" where
  "file_name service key = EncodeToString encodeURL (bytes_of_string (service @ ''/'' @ key))"

text \<open>
  A name that \<^verbatim>\<open>Clean\<close> copies as it is: not empty, without a separator and without a
  dot. \<open>sep_before\<close> is the output buffer of \<^verbatim>\<open>Clean\<close> with the separator it appends
  before a path element, and \<open>join_prefix dir\<close> is what \<^verbatim>\<open>Join\<close> puts in front of such
  a name.
\<close>

definition name_ok :: "string \<Rightarrow> bool" where
  "name_ok f = (f \<noteq> [] \<and> (\<forall>c \<in> set f. c \<noteq> Separator \<and> c \<noteq> CHR ''.''))"

definition sep_before :: "bool \<Rightarrow> string \<Rightarrow> string" where
  "sep_before rooted out =
     (if rooted \<and> length out \<noteq> 1 \<or> \<not> rooted \<and> length out \<noteq> 0 then out @ [Separator] else out)"

definition join_prefix :: "string \<Rightarrow> string" where
  "join_prefix dir =
     (if dir = [] then []
      else
        let rooted = (hd dir = Separator);
            st = (if rooted then ([Separator], 1) else ([], 0))
        in sep_before rooted (fst (clean_loop rooted st (if rooted then tl dir else dir))))"

definition rooted_inv :: "string \<times> nat \<Rightarrow> bool" where
  "rooted_inv st = (case st of (out, dotdot) \<Rightarrow> out \<noteq> [] \<and> hd out = Separator \<and> dotdot = 1)"

text \<open>A run of the process: calls of the exported functions, one after the other.\<close>

datatype request = SetReq string string "byte list" | GetReq string string | DelReq string string

fun serve :: "platform \<Rightarrow> 'w sys \<Rightarrow> request \<Rightarrow> 'w \<Rightarrow> 'w" where
  "serve p S (SetReq service key val) w = snd (vault_Set p S service key val w)"
| "serve p S (GetReq service key) w = snd (vault_Get p S service key w)"
| "serve p S (DelReq service key) w = snd (vault_Del p S service key w)"

fun run :: "platform \<Rightarrow> 'w sys \<Rightarrow> request list \<Rightarrow> 'w \<Rightarrow> 'w" where
  "run p S [] w = w"
| "run p S (r # rs) w = run p S rs (serve p S r w)"

definition keyring_untouched :: "world \<Rightarrow> world \<Rightarrow> bool" where
  "keyring_untouched w w' =
     (keyring w' = keyring w \<and> secret_tool_installed w' = secret_tool_installed w)"

definition files_untouched :: "world \<Rightarrow> world \<Rightarrow> bool" where
  "files_untouched w w' =
     (files w' = files w \<and> directories w' = directories w \<and>
      secret_tool_installed w' = secret_tool_installed w)"

text \<open>
  The world after \<^verbatim>\<open>Set("app", "k", [1, 2, 3])\<close> on a Linux machine without
  \<^verbatim>\<open>secret-tool\<close>, and the same world once the tool has been installed.
\<close>

definition after_file_set :: world where
  "after_file_set = snd (vault_Set Linux ideal ''app'' ''k'' [1, 2, 3] fresh)"

definition tool_installed_later :: world where
  "tool_installed_later = after_file_set\<lparr>secret_tool_installed := True\<rparr>"

section \<open>Properties of the library functions\<close>

subsection \<open>Bytes and strings\<close>

lemma string_of_bytes_of_string [simp]: "string_of_bytes (bytes_of_string s) = s"
proof -
  have "char_of (unat (of_nat (of_char c) :: byte)) = c" for c
  proof -
    have "unat (of_nat (of_char c) :: byte) = of_char c mod 256"
      by (simp add: unat_of_nat)
    then show ?thesis by simp
  qed
  then show ?thesis
    by (simp add: string_of_bytes_def bytes_of_string_def map_idI)
qed

lemma bytes_of_string_of_bytes [simp]: "bytes_of_string (string_of_bytes b) = b"
proof -
  have "(of_nat (of_char (char_of (unat x))) :: byte) = x" for x :: byte
  proof -
    have "unat x < 256" using unsigned_less[of x, where ?'a = nat] by simp
    then show ?thesis by simp
  qed
  then show ?thesis
    by (simp add: string_of_bytes_def bytes_of_string_def map_idI)
qed

lemma bytes_of_string_inj: "bytes_of_string s = bytes_of_string t \<Longrightarrow> s = t"
  by (metis string_of_bytes_of_string)

lemma bytes_of_string_Nil [simp]: "(bytes_of_string s = []) = (s = [])"
  by (simp add: bytes_of_string_def)

subsection \<open>Base64: decoding undoes encoding\<close>

lemma decodeMap_nth:
  "distinct enc \<Longrightarrow> i < length enc \<Longrightarrow> decodeMap enc (enc ! i) = Some (of_nat i)"
proof (induction enc arbitrary: i)
  case Nil
  then show ?case by simp
next
  case (Cons x xs)
  show ?case
  proof (cases i)
    case 0
    then show ?thesis by simp
  next
    case (Suc j)
    with Cons.prems have "xs ! j \<noteq> x" by auto
    with Suc Cons show ?thesis by simp
  qed
qed

lemma decodeMap_None: "c \<notin> set enc \<Longrightarrow> decodeMap enc c = None"
  by (induction enc) auto

lemma sextet_lt: "unat ((w :: 64 word) AND 0x3F) < 64"
proof -
  have "w AND 0x3F \<le> 0x3F" by (rule word_and_le1)
  then show ?thesis by (simp add: word_le_nat_alt)
qed

lemma decodeMap_sextet:
  assumes "alphabet_ok enc"
  shows "decodeMap enc (enc ! unat ((w :: 64 word) AND 0x3F)) = Some (ucast (w AND 0x3F))"
proof -
  have "decodeMap enc (enc ! unat (w AND 0x3F)) = Some (of_nat (unat (w AND 0x3F)))"
    using assms sextet_lt[of w] by (intro decodeMap_nth) (auto simp: alphabet_ok_def)
  then show ?thesis by (simp only: of_nat_unat)
qed

lemma and_3F: "(w :: 64 word) AND 0x3F = take_bit 6 w"
proof -
  have "(0x3F :: 64 word) = mask 6" by (simp add: mask_eq_exp_minus_1)
  then show ?thesis by (simp only: take_bit_eq_mask)
qed

lemma bit_sextet:
  "k \<le> 58 \<Longrightarrow> bit (push_bit k (ucast (ucast (drop_bit k val AND 0x3F) :: byte)) :: 64 word) n
     = (k \<le> n \<and> n < k + 6 \<and> bit (val :: 64 word) n)"
  unfolding and_3F
  by (auto simp add: bit_simps dest: bit_imp_le_length)

lemma bit_sextet0:
  "bit (ucast (ucast ((val :: 64 word) AND 0x3F) :: byte) :: 64 word) n = (n < 6 \<and> bit val n)"
  unfolding and_3F
  by (auto simp add: bit_simps dest: bit_imp_le_length)

lemma bit_val3: fixes a b c :: byte
  shows "bit (push_bit 16 (ucast a) OR push_bit 8 (ucast b) OR ucast c :: 64 word) n
     = (if n < 8 then bit c n else if n < 16 then bit b (n - 8) else n < 24 \<and> bit a (n - 16))"
  by (auto simp add: bit_simps dest: bit_imp_le_length)

lemma bit_val2: fixes a b :: byte
  shows "bit (push_bit 16 (ucast a) OR push_bit 8 (ucast b) :: 64 word) n
     = (if n < 8 then False else if n < 16 then bit b (n - 8) else n < 24 \<and> bit a (n - 16))"
  by (auto simp add: bit_simps dest: bit_imp_le_length)

lemma bit_val1: fixes a :: byte
  shows "bit (push_bit 16 (ucast a) :: 64 word) n = (16 \<le> n \<and> n < 24 \<and> bit a (n - 16))"
  by (auto simp add: bit_simps dest: bit_imp_le_length)

lemma convert4:
  fixes a b c :: byte
  defines "val \<equiv> push_bit 16 (ucast a) OR push_bit 8 (ucast b) OR ucast c :: 64 word"
  shows "convert [ucast (drop_bit 18 val AND 0x3F), ucast (drop_bit 12 val AND 0x3F), ucast (drop_bit 6 val AND 0x3F), ucast (val AND 0x3F)] = [a, b, c]"
proof -
  define v :: "64 word" where "v = push_bit 18 (ucast (ucast (drop_bit 18 val AND 0x3F) :: byte)) OR push_bit 12 (ucast (ucast (drop_bit 12 val AND 0x3F) :: byte)) OR push_bit 6 (ucast (ucast (drop_bit 6 val AND 0x3F) :: byte)) OR ucast (ucast (val AND 0x3F) :: byte)"
  have b: "bit v n = (n < 24 \<and> bit val n)" for n
    unfolding v_def by (simp only: bit_or_iff bit_sextet bit_sextet0) auto
  have bv: "bit val n = (if n < 8 then bit c n else if n < 16 then bit b (n - 8) else n < 24 \<and> bit a (n - 16))" for n
    unfolding val_def by (rule bit_val3)
  have e0: "(ucast (drop_bit 16 v) :: byte) = a"
    by (rule bit_word_eqI) (auto simp add: bit_ucast_iff bit_drop_bit_eq b bv)
  have e1: "(ucast (drop_bit 8 v) :: byte) = b"
    by (rule bit_word_eqI) (auto simp add: bit_ucast_iff bit_drop_bit_eq b bv)
  have e2: "(ucast (v) :: byte) = c"
    by (rule bit_word_eqI) (auto simp add: bit_ucast_iff bit_drop_bit_eq b bv)
  have "convert [ucast (drop_bit 18 val AND 0x3F), ucast (drop_bit 12 val AND 0x3F), ucast (drop_bit 6 val AND 0x3F), ucast (val AND 0x3F)] = take 3 [ucast (drop_bit 16 v), ucast (drop_bit 8 v), ucast v]"
    by (simp add: convert_def Let_def v_def)
  then show ?thesis
    by (simp add: e0 e1 e2)
qed

lemma convert3:
  fixes a b :: byte
  defines "val \<equiv> push_bit 16 (ucast a) OR push_bit 8 (ucast b) :: 64 word"
  shows "convert [ucast (drop_bit 18 val AND 0x3F), ucast (drop_bit 12 val AND 0x3F), ucast (drop_bit 6 val AND 0x3F)] = [a, b]"
proof -
  define v :: "64 word" where "v = push_bit 18 (ucast (ucast (drop_bit 18 val AND 0x3F) :: byte)) OR push_bit 12 (ucast (ucast (drop_bit 12 val AND 0x3F) :: byte)) OR push_bit 6 (ucast (ucast (drop_bit 6 val AND 0x3F) :: byte)) OR ucast (0 :: byte)"
  have b: "bit v n = (6 \<le> n \<and> n < 24 \<and> bit val n)" for n
    unfolding v_def by (simp only: bit_or_iff bit_sextet bit_sextet0) auto
  have bv: "bit val n = (if n < 8 then False else if n < 16 then bit b (n - 8) else n < 24 \<and> bit a (n - 16))" for n
    unfolding val_def by (rule bit_val2)
  have e0: "(ucast (drop_bit 16 v) :: byte) = a"
    by (rule bit_word_eqI) (auto simp add: bit_ucast_iff bit_drop_bit_eq b bv)
  have e1: "(ucast (drop_bit 8 v) :: byte) = b"
    by (rule bit_word_eqI) (auto simp add: bit_ucast_iff bit_drop_bit_eq b bv)
  have "convert [ucast (drop_bit 18 val AND 0x3F), ucast (drop_bit 12 val AND 0x3F), ucast (drop_bit 6 val AND 0x3F)] = take 2 [ucast (drop_bit 16 v), ucast (drop_bit 8 v), ucast v]"
    by (simp add: convert_def Let_def v_def)
  then show ?thesis
    by (simp add: e0 e1)
qed

lemma convert2:
  fixes a :: byte
  defines "val \<equiv> push_bit 16 (ucast a) :: 64 word"
  shows "convert [ucast (drop_bit 18 val AND 0x3F), ucast (drop_bit 12 val AND 0x3F)] = [a]"
proof -
  define v :: "64 word" where "v = push_bit 18 (ucast (ucast (drop_bit 18 val AND 0x3F) :: byte)) OR push_bit 12 (ucast (ucast (drop_bit 12 val AND 0x3F) :: byte)) OR push_bit 6 (ucast (0 :: byte)) OR ucast (0 :: byte)"
  have b: "bit v n = (12 \<le> n \<and> n < 24 \<and> bit val n)" for n
    unfolding v_def by (simp only: bit_or_iff bit_sextet bit_sextet0) auto
  have bv: "bit val n = (16 \<le> n \<and> n < 24 \<and> bit a (n - 16))" for n
    unfolding val_def by (rule bit_val1)
  have e0: "(ucast (drop_bit 16 v) :: byte) = a"
    by (rule bit_word_eqI) (auto simp add: bit_ucast_iff bit_drop_bit_eq b bv)
  have "convert [ucast (drop_bit 18 val AND 0x3F), ucast (drop_bit 12 val AND 0x3F)] = take 1 [ucast (drop_bit 16 v), ucast (drop_bit 8 v), ucast v]"
    by (simp add: convert_def Let_def v_def)
  then show ?thesis
    by (simp add: e0)
qed

lemma decodeMap_pad: "alphabet_ok enc \<Longrightarrow> decodeMap enc padChar = None"
  by (simp add: alphabet_ok_def decodeMap_None)

lemma padChar_not_newline: "\<not> isNewline padChar"
  by (simp add: isNewline_def padChar_def)

lemma quantum_full:
  assumes "alphabet_ok enc"
  shows "decodeQuantum enc n [] (Encode enc [a, b, c] @ rest) = Quantum rest [a, b, c] None"
proof -
  define val :: "64 word" where "val = push_bit 16 (ucast a) OR push_bit 8 (ucast b) OR ucast c"
  have "decodeQuantum enc n [] (Encode enc [a, b, c] @ rest)
      = Quantum rest (convert [ucast (drop_bit 18 val AND 0x3F), ucast (drop_bit 12 val AND 0x3F),
                  ucast (drop_bit 6 val AND 0x3F), ucast (val AND 0x3F)]) None"
    unfolding val_def
    by (cases rest) (simp_all add: Let_def decodeMap_sextet[OF assms])
  then show ?thesis
    unfolding val_def by (simp only: convert4)
qed

lemma quantum_two:
  assumes "alphabet_ok enc"
  shows "decodeQuantum enc n [] (Encode enc [a, b]) = Quantum [] [a, b] None"
proof -
  define val :: "64 word" where "val = push_bit 16 (ucast a) OR push_bit 8 (ucast b)"
  have "decodeQuantum enc n [] (Encode enc [a, b])
      = Quantum [] (convert [ucast (drop_bit 18 val AND 0x3F), ucast (drop_bit 12 val AND 0x3F),
                  ucast (drop_bit 6 val AND 0x3F)]) None"
    unfolding val_def
    by (simp add: Let_def decodeMap_sextet[OF assms] decodeMap_pad[OF assms] padChar_not_newline)
  then show ?thesis
    unfolding val_def by (simp only: convert3)
qed

lemma quantum_one:
  assumes "alphabet_ok enc"
  shows "decodeQuantum enc n [] (Encode enc [a]) = Quantum [] [a] None"
proof -
  define val :: "64 word" where "val = push_bit 16 (ucast a)"
  have "decodeQuantum enc n [] (Encode enc [a])
      = Quantum [] (convert [ucast (drop_bit 18 val AND 0x3F), ucast (drop_bit 12 val AND 0x3F)]) None"
    unfolding val_def
    by (simp add: Let_def decodeMap_sextet[OF assms] decodeMap_pad[OF assms] padChar_not_newline)
  then show ?thesis
    unfolding val_def by (simp only: convert2)
qed

lemma Encode_cons3: "Encode enc (a # b # c # rest) = Encode enc [a, b, c] @ Encode enc rest"
  by (simp add: Let_def)

lemma Encode_three_nonempty: "Encode enc [a, b, c] @ rest \<noteq> []"
  by (simp add: Let_def)

lemma Decode_loop_Nil: "Decode_loop enc n [] = ([], None)"
  by (subst Decode_loop.simps) simp

lemma Decode_loop_step:
  "src \<noteq> [] \<Longrightarrow> decodeQuantum enc n [] src = Quantum rest bs None \<Longrightarrow>
   Decode_loop enc n src = (bs @ fst (Decode_loop enc n rest), snd (Decode_loop enc n rest))"
  by (subst Decode_loop.simps) (simp add: split_beta)

lemma Decode_loop_Encode:
  "alphabet_ok enc \<Longrightarrow> Decode_loop enc n (Encode enc src) = (src, None)"
proof (induction enc src rule: Encode.induct)
  case (1 enc a b c rest)
  note ok = "1.prems"
  have "Decode_loop enc n (Encode enc [a, b, c] @ Encode enc rest) = (a # b # c # rest, None)"
    by (subst Decode_loop_step[OF Encode_three_nonempty quantum_full[OF ok]])
       (simp add: "1.IH"[OF refl ok])
  then show ?case
    by (subst Encode_cons3)
next
  case (2 enc a b)
  note ok = "2.prems"
  have ne: "Encode enc [a, b] \<noteq> []" by (simp add: Let_def)
  show ?case
    by (subst Decode_loop_step[OF ne quantum_two[OF ok]]) (simp add: Decode_loop_Nil)
next
  case (3 enc a)
  note ok = "3.prems"
  have ne: "Encode enc [a] \<noteq> []" by (simp add: Let_def)
  show ?case
    by (subst Decode_loop_step[OF ne quantum_one[OF ok]]) (simp add: Decode_loop_Nil)
next
  case (4 enc)
  show ?case by (simp add: Decode_loop_Nil)
qed

lemma DecodeString_EncodeToString:
  "alphabet_ok enc \<Longrightarrow> DecodeString enc (Encode enc src) = (src, None)"
  by (simp add: DecodeString_def Decode_loop_Encode)

lemma alphabet_ok_Std: "alphabet_ok encodeStd"
  by (simp add: alphabet_ok_def encodeStd_def padChar_def)

lemma alphabet_ok_URL: "alphabet_ok encodeURL"
  by (simp add: alphabet_ok_def encodeURL_def padChar_def)

subsection \<open>Trimming white space around plain text\<close>

lemma asciiSpace_ascii: "asciiSpace c \<Longrightarrow> \<not> RuneSelf \<le> of_char c"
  by (auto simp: asciiSpace_def RuneSelf_def)

lemma trim_stop_spaces: "\<forall>c \<in> set ws. asciiSpace c \<Longrightarrow> trim_stop (ws @ u) = trim_stop u"
  by (induction ws) (simp_all add: asciiSpace_ascii)

lemma trim_stop_plain: "plain_char c \<Longrightarrow> trim_stop (c # u) = rev (c # u)"
  by (simp add: plain_char_def)

lemma TrimSpace_spaces: "\<forall>c \<in> set ws. asciiSpace c \<Longrightarrow> TrimSpace (ws @ u) = TrimSpace u"
  by (induction ws) (simp_all add: asciiSpace_ascii)

lemma TrimSpace_plain:
  assumes t: "\<forall>c \<in> set t. plain_char c"
    and l: "\<forall>c \<in> set l. asciiSpace c" and r: "\<forall>c \<in> set r. asciiSpace c"
  shows "TrimSpace (l @ t @ r) = t"
proof (cases t)
  case Nil
  have "TrimSpace (l @ r @ []) = TrimSpace []"
    using l r by (simp only: TrimSpace_spaces)
  with Nil show ?thesis by simp
next
  case (Cons c t')
  have pc: "plain_char c" and pl: "plain_char (last (c # t'))"
    using t Cons by auto
  have "TrimSpace (l @ t @ r) = TrimSpace ((c # t') @ r)"
    using l Cons by (simp only: TrimSpace_spaces)
  also have "\<dots> = trim_stop (rev ((c # t') @ r))"
    using pc by (simp add: plain_char_def)
  also have "\<dots> = trim_stop (rev r @ rev (c # t'))"
    by simp
  also have "\<dots> = trim_stop (rev (c # t'))"
    using r by (intro trim_stop_spaces) simp
  also have "\<dots> = trim_stop (last (c # t') # rev (butlast (c # t')))"
    by (metis append_butlast_last_id list.distinct(1) rev.simps(2) rev_append rev_rev_ident rev_singleton_conv append_Cons append_Nil)
  also have "\<dots> = rev (last (c # t') # rev (butlast (c # t')))"
    using pl by (rule trim_stop_plain)
  also have "\<dots> = c # t'"
    by simp
  finally show ?thesis using Cons by simp
qed

lemma set_Encode: "length enc = 64 \<Longrightarrow> set (Encode enc src) \<subseteq> insert padChar (set enc)"
proof (induction enc src rule: Encode.induct)
  case (1 enc a b c rest)
  then show ?case
    using sextet_lt by (auto simp: Let_def)
next
  case (2 enc a b)
  then show ?case using sextet_lt by (auto simp: Let_def)
next
  case (3 enc a)
  then show ?case using sextet_lt by (auto simp: Let_def)
next
  case (4 enc)
  then show ?case by simp
qed

lemma plain_encodeStd: "\<forall>c \<in> insert padChar (set encodeStd). plain_char c"
  by (simp add: encodeStd_def padChar_def plain_char_def RuneSelf_def asciiSpace_def)

lemma plain_Encode_Std: "\<forall>c \<in> set (Encode encodeStd src). plain_char c"
  using set_Encode[of encodeStd src] plain_encodeStd
  by (auto simp: encodeStd_def)

lemma DecodeString_TrimSpace_Encode:
  assumes "\<forall>c \<in> set l. asciiSpace c" and "\<forall>c \<in> set r. asciiSpace c"
  shows "DecodeString encodeStd (TrimSpace (l @ EncodeToString encodeStd x @ r)) = (x, None)"
  using assms
  by (simp add: EncodeToString_def TrimSpace_plain[OF plain_Encode_Std]
      DecodeString_EncodeToString[OF alphabet_ok_Std])

section \<open>The errors of the adapters\<close>

lemma darwin_get_errors: "snd (fst (darwin_get S service key w)) = Some e \<Longrightarrow> is_backend_error e"
  by (auto simp: darwin_get_def Let_def split: prod.splits if_splits option.splits)

lemma darwin_del_errors: "fst (darwin_del S service key w) = Some e \<Longrightarrow> is_backend_error e"
  by (auto simp: darwin_del_def Let_def split: prod.splits if_splits option.splits)

lemma windows_get_errors: "snd (fst (windows_get S service key w)) = Some e \<Longrightarrow> is_backend_error e"
  by (auto simp: windows_get_def Let_def split: prod.splits if_splits option.splits)

lemma windows_del_errors: "fst (windows_del S service key w) = Some e \<Longrightarrow> is_backend_error e"
  by (auto simp: windows_del_def Let_def split: prod.splits if_splits option.splits)

lemma getFileStorage_errors: "snd (fst (getFileStorage gsd S service key w)) = Some e \<Longrightarrow> is_backend_error e"
  by (auto simp: getFileStorage_def Let_def split: prod.splits if_splits option.splits sum.splits)

lemma deleteFileStorage_errors: "fst (deleteFileStorage gsd S service key w) = Some e \<Longrightarrow> is_backend_error e"
  by (auto simp: deleteFileStorage_def Let_def split: prod.splits if_splits option.splits sum.splits)

lemma linux_get_errors: "snd (fst (linux_get S service key w)) = Some e \<Longrightarrow> is_backend_error e"
  by (auto simp: linux_get_def getSecretTool_def Let_def dest: getFileStorage_errors split: prod.splits if_splits option.splits)

lemma linux_del_errors: "fst (linux_del S service key w) = Some e \<Longrightarrow> is_backend_error e"
  by (auto simp: linux_del_def deleteSecretTool_def Let_def dest: deleteFileStorage_errors split: prod.splits if_splits option.splits)

lemma js_get_errors: "snd (fst (js_get S service key w)) = Some e \<Longrightarrow> is_backend_error e"
  by (auto simp: js_get_def Let_def split: prod.splits if_splits option.splits idb_lookup.splits bool.splits)

lemma js_del_errors: "fst (js_del S service key w) = Some e \<Longrightarrow> is_backend_error e"
  by (auto simp: js_del_def withStore_def Let_def split: prod.splits if_splits option.splits idb_lookup.splits bool.splits)

lemma backend_get_errors: "snd (fst (backend_get p S service key w)) = Some e \<Longrightarrow> is_backend_error e"
  by (cases p) (auto dest: darwin_get_errors windows_get_errors linux_get_errors getFileStorage_errors js_get_errors)

lemma backend_del_errors: "fst (backend_del p S service key w) = Some e \<Longrightarrow> is_backend_error e"
  by (cases p) (auto dest: darwin_del_errors windows_del_errors linux_del_errors deleteFileStorage_errors js_del_errors)

section \<open>The adapters in the world of well-behaved tools\<close>

lemma ideal_sel [simp]:
  "exec_Command ideal = ideal_exec"
  "LookPath ideal = (\<lambda>name w. name = ''secret-tool'' \<and> secret_tool_installed w)"
  "Getenv ideal = (\<lambda>name w. environ w name)"
  "UserHomeDir ideal = home_dir"
  "Getwd ideal = work_dir"
  "MkdirAll ideal = ideal_MkdirAll"
  "WriteFile ideal = ideal_WriteFile"
  "ReadFile ideal = ideal_ReadFile"
  "Remove ideal = ideal_Remove"
  "idb_open ideal = (\<lambda>name version w. (True, w))"
  "idb_put ideal = ideal_idb_put"
  "idb_get ideal = ideal_idb_get"
  "idb_delete ideal = ideal_idb_delete"
  "unicode_lower ideal = (\<lambda>s. s)"
  by (simp_all add: ideal_def)

lemmas ideal_tools = ideal_exec_def security_tool_def secret_tool_def powershell_def
  cmdkey_def plain_args_def exited_def

lemma string_of_bytes_Nil [simp]: "(string_of_bytes b = []) = (b = [])"
  by (simp add: string_of_bytes_def)

lemma Encode_nonempty: "val \<noteq> [] \<Longrightarrow> Encode enc val \<noteq> []"
  by (induction enc val rule: Encode.induct) (auto simp: Let_def)

lemma Contains_keychain_missing: "Contains keychain_missing ''could not be found''"
  by (simp add: keychain_missing_def)

lemma darwin_del_ideal:
  "darwin_del ideal service key w =
     (case keychain w (service, key) of
        None \<Rightarrow> (Some ErrNotFound, w)
      | Some p \<Rightarrow> (None, w\<lparr>keychain := (keychain w)((service, key) := None)\<rparr>))"
  by (simp add: darwin_del_def ideal_tools Let_def Contains_keychain_missing split: option.splits)

















lemma hasSecretTool_ideal: "hasSecretTool ideal w = secret_tool_installed w"
  by (simp add: hasSecretTool_def)

lemma setSecretTool_ideal:
  "setSecretTool ideal service key val w =
     (None, w\<lparr>keyring := (keyring w)((service, key) \<mapsto> val)\<rparr>)"
  by (simp add: setSecretTool_def ideal_tools Let_def)

lemma getSecretTool_ideal:
  "getSecretTool ideal service key w =
     (case keyring w (service, key) of
        None \<Rightarrow> (([], Some ErrNotFound), w)
      | Some secret \<Rightarrow> (if secret = [] then (([], Some ErrNotFound), w) else ((secret, None), w)))"
  by (simp add: getSecretTool_def ideal_tools Let_def split: option.splits)

lemma deleteSecretTool_ideal:
  "deleteSecretTool ideal service key w =
     (None, w\<lparr>keyring := (keyring w)((service, key) := None)\<rparr>)"
  by (simp add: deleteSecretTool_def ideal_tools Let_def)

lemma secret_tool_roundtrip:
  "val \<noteq> [] \<Longrightarrow>
   fst (getSecretTool ideal service key (snd (setSecretTool ideal service key val w))) = (val, None)"
  by (simp add: setSecretTool_ideal getSecretTool_ideal)

lemma getStorageDir_ios_ideal: "getStorageDir_ios ideal w = ideal_storage_dir root_ios w"
  by (simp add: getStorageDir_ios_def ideal_storage_dir_def root_ios_def Let_def split: sum.splits)

lemma getStorageDir_android_ideal: "getStorageDir_android ideal w = ideal_storage_dir root_android w"
  by (simp add: getStorageDir_android_def ideal_storage_dir_def root_android_def Let_def split: sum.splits)

lemma getStorageDir_linux_ideal: "getStorageDir_linux ideal w = ideal_storage_dir root_linux w"
  by (simp add: getStorageDir_linux_def ideal_storage_dir_def root_linux_def Let_def split: sum.splits)










section \<open>Paths of the file store\<close>

lemma clean_loop_name:
  assumes "name_ok f"
  shows "clean_loop rooted (out, dotdot) f = (sep_before rooted out @ f, dotdot)"
proof -
  from assms obtain c cs where f: "f = c # cs" by (cases f) (auto simp: name_ok_def)
  have tw: "takeWhile (\<lambda>x. x \<noteq> Separator) (c # cs) = c # cs"
    using assms f by (intro takeWhile_eq_all_conv[THEN iffD2]) (auto simp: name_ok_def)
  have dw: "dropWhile (\<lambda>x. x \<noteq> Separator) (c # cs) = []"
    using assms f by (intro dropWhile_eq_Nil_conv[THEN iffD2]) (auto simp: name_ok_def)
  have c: "c \<noteq> Separator" "c \<noteq> CHR ''.''" using assms f by (auto simp: name_ok_def)
  show ?thesis
    unfolding f
    by (subst clean_loop.simps(2)) (simp only: c tw dw if_False Let_def sep_before_def clean_loop.simps(1) simp_thms)
qed

lemma hd_append_sep: "hd (cs @ Separator # q) = (if cs = [] then Separator else hd cs)"
  by (cases cs) auto

lemma tl_append_sep: "cs \<noteq> [] \<Longrightarrow> tl (cs @ Separator # q) = tl cs @ Separator # q"
  by (cases cs) auto

lemma takeWhile_sep: "takeWhile (\<lambda>x. x \<noteq> Separator) (xs @ Separator # q) = takeWhile (\<lambda>x. x \<noteq> Separator) xs"
  by (induction xs) auto

lemma dropWhile_sep: "dropWhile (\<lambda>x. x \<noteq> Separator) (xs @ Separator # q) = dropWhile (\<lambda>x. x \<noteq> Separator) xs @ Separator # q"
  by (induction xs) auto

lemma clean_loop_sep:
  "clean_loop rooted (out, dotdot) (Separator # cs) = clean_loop rooted (out, dotdot) cs"
  by (subst clean_loop.simps(2)) simp

lemma clean_loop_dot:
  "cs = [] \<or> hd cs = Separator \<Longrightarrow>
   clean_loop rooted (out, dotdot) (CHR ''.'' # cs) = clean_loop rooted (out, dotdot) cs"
  by (subst clean_loop.simps(2)) (simp add: Separator_def)

lemma clean_loop_dotdot:
  "\<not> (cs = [] \<or> hd cs = Separator) \<Longrightarrow> hd cs = CHR ''.'' \<Longrightarrow>
   tl cs = [] \<or> hd (tl cs) = Separator \<Longrightarrow>
   clean_loop rooted (out, dotdot) (CHR ''.'' # cs) =
     (if dotdot < length out then
        clean_loop rooted (take (backtrack out dotdot (length out - 1)) out, dotdot) (tl cs)
      else if \<not> rooted then
        clean_loop rooted ((if 0 < length out then out @ [Separator] else out) @ ''..'',
                           length ((if 0 < length out then out @ [Separator] else out) @ ''..''))
          (tl cs)
      else clean_loop rooted (out, dotdot) (tl cs))"
  by (subst clean_loop.simps(2)) (simp add: Separator_def Let_def)

lemma clean_loop_elem:
  "c \<noteq> Separator \<Longrightarrow> \<not> (c = CHR ''.'' \<and> (cs = [] \<or> hd cs = Separator)) \<Longrightarrow>
   \<not> (c = CHR ''.'' \<and> hd cs = CHR ''.'' \<and> (tl cs = [] \<or> hd (tl cs) = Separator)) \<Longrightarrow>
   clean_loop rooted (out, dotdot) (c # cs) =
     clean_loop rooted
       (sep_before rooted out @ takeWhile (\<lambda>x. x \<noteq> Separator) (c # cs), dotdot)
       (dropWhile (\<lambda>x. x \<noteq> Separator) (c # cs))"
  by (subst clean_loop.simps(2)) (simp only: if_False Let_def sep_before_def simp_thms)

lemma clean_loop_append:
  "clean_loop rooted st (p @ Separator # q) = clean_loop rooted (clean_loop rooted st p) (Separator # q)"
proof (induction rooted st p rule: clean_loop.induct)
  case (1 rooted st)
  then show ?case by simp
next
  case (2 rooted out dotdot c cs)
  let ?rest = "cs @ Separator # q"
  show ?case
  proof (cases "c = Separator")
    case True
    then show ?thesis
      using "2.IH"(1) by (simp add: clean_loop_sep)
  next
    case notsep: False
    show ?thesis
    proof (cases "c = CHR ''.'' \<and> (cs = [] \<or> hd cs = Separator)")
      case True
      then have "?rest = [] \<or> hd ?rest = Separator"
        by (auto simp: hd_append_sep)
      with True notsep show ?thesis
        using "2.IH"(2) by (simp add: clean_loop_dot)
    next
      case notdot: False
      show ?thesis
      proof (cases "c = CHR ''.'' \<and> hd cs = CHR ''.'' \<and> (tl cs = [] \<or> hd (tl cs) = Separator)")
        case True
        with notdot have ne: "cs \<noteq> []" and nd: "\<not> (cs = [] \<or> hd cs = Separator)" by auto
        have tl': "tl ?rest = tl cs @ Separator # q" using ne by (rule tl_append_sep)
        have hd': "hd ?rest = hd cs" using ne by (simp add: hd_append_sep)
        have nd': "\<not> (?rest = [] \<or> hd ?rest = Separator)" using nd hd' by simp
        have t': "tl ?rest = [] \<or> hd (tl ?rest) = Separator"
          using True by (auto simp: tl' hd_append_sep)
        have L: "clean_loop rooted (out, dotdot) ((c # cs) @ Separator # q) =
          (if dotdot < length out then
             clean_loop rooted (take (backtrack out dotdot (length out - 1)) out, dotdot) (tl cs @ Separator # q)
           else if \<not> rooted then
             clean_loop rooted ((if 0 < length out then out @ [Separator] else out) @ ''..'',
                           length ((if 0 < length out then out @ [Separator] else out) @ ''..''))
               (tl cs @ Separator # q)
           else clean_loop rooted (out, dotdot) (tl cs @ Separator # q))"
          using True clean_loop_dotdot[OF nd' _ t', of rooted out dotdot] hd' tl' by simp
        have R: "clean_loop rooted (out, dotdot) (c # cs) =
          (if dotdot < length out then
             clean_loop rooted (take (backtrack out dotdot (length out - 1)) out, dotdot) (tl cs)
           else if \<not> rooted then
             clean_loop rooted ((if 0 < length out then out @ [Separator] else out) @ ''..'',
                           length ((if 0 < length out then out @ [Separator] else out) @ ''..''))
               (tl cs)
           else clean_loop rooted (out, dotdot) (tl cs))"
          using True clean_loop_dotdot[OF nd _ , of rooted out dotdot] by simp
        show ?thesis
          unfolding L R
          using "2.IH"(3)[OF notsep notdot True] "2.IH"(4)[OF notsep notdot True] "2.IH"(5)[OF notsep notdot True]
          by (auto simp: Let_def)
      next
        case False
        have nd': "\<not> (c = CHR ''.'' \<and> (?rest = [] \<or> hd ?rest = Separator))"
          using notdot by (auto simp: hd_append_sep)
        have nodd': "\<not> (c = CHR ''.'' \<and> hd ?rest = CHR ''.'' \<and> (tl ?rest = [] \<or> hd (tl ?rest) = Separator))"
          using False notdot by (cases "cs = []") (auto simp: hd_append_sep tl_append_sep Separator_def)
        have tw: "takeWhile (\<lambda>x. x \<noteq> Separator) (c # ?rest) = takeWhile (\<lambda>x. x \<noteq> Separator) (c # cs)"
          using takeWhile_sep[of "c # cs" q] by simp
        have dw: "dropWhile (\<lambda>x. x \<noteq> Separator) (c # ?rest) = dropWhile (\<lambda>x. x \<noteq> Separator) (c # cs) @ Separator # q"
          using dropWhile_sep[of "c # cs" q] by simp
        have L: "clean_loop rooted (out, dotdot) ((c # cs) @ Separator # q) =
           clean_loop rooted (sep_before rooted out @ takeWhile (\<lambda>x. x \<noteq> Separator) (c # cs), dotdot)
             (dropWhile (\<lambda>x. x \<noteq> Separator) (c # cs) @ Separator # q)"
          using clean_loop_elem[OF notsep nd' nodd', of rooted out dotdot] by (simp only: append_Cons tw dw)
        have R: "clean_loop rooted (out, dotdot) (c # cs) =
           clean_loop rooted (sep_before rooted out @ takeWhile (\<lambda>x. x \<noteq> Separator) (c # cs), dotdot)
             (dropWhile (\<lambda>x. x \<noteq> Separator) (c # cs))"
          by (rule clean_loop_elem[OF notsep notdot False])
        show ?thesis
          unfolding L R
          using "2.IH"(6)[OF notsep notdot False refl]
          by (simp add: sep_before_def)
      qed
    qed
  qed
qed

lemma name_ok_not_rooted: "name_ok f \<Longrightarrow> hd f \<noteq> Separator"
  by (cases f) (auto simp: name_ok_def)

lemma Join_dir_name:
  assumes f: "name_ok f"
  shows "Join [dir, f] = join_prefix dir @ f"
proof (cases "dir = []")
  case True
  from f have ne: "f \<noteq> []" by (simp add: name_ok_def)
  have "Clean f = f"
    using ne name_ok_not_rooted[OF f] clean_loop_name[OF f, of False "[]" 0]
    by (simp add: Clean_def Let_def sep_before_def)
  with True ne show ?thesis
    by (simp add: Join.simps join_prefix_def)
next
  case False
  let ?rooted = "hd dir = Separator"
  let ?st = "if ?rooted then ([Separator], 1) else ([], 0::nat)"
  let ?p0 = "if ?rooted then tl dir else dir"
  obtain out1 dd1 where st1: "clean_loop ?rooted ?st ?p0 = (out1, dd1)"
    by (cases "clean_loop ?rooted ?st ?p0")
  have path: "strings_Join [dir, f] [Separator] = dir @ Separator # f"
    by simp
  have hd: "hd (dir @ Separator # f) = hd dir" using False by simp
  have rest: "(if ?rooted then tl (dir @ Separator # f) else dir @ Separator # f) = ?p0 @ Separator # f"
    using False by simp
  have "clean_loop ?rooted ?st (?p0 @ Separator # f) = (sep_before ?rooted out1 @ f, dd1)"
    by (simp only: clean_loop_append st1 clean_loop_sep clean_loop_name[OF f])
  moreover from f have "sep_before ?rooted out1 @ f \<noteq> []" by (simp add: name_ok_def)
  ultimately have "Clean (dir @ Separator # f) = sep_before ?rooted out1 @ f"
    unfolding Clean_def Let_def hd rest by simp
  with False st1 show ?thesis
    by (simp add: Join.simps path join_prefix_def Let_def)
qed

lemma Join_inj:
  assumes "name_ok f" and "name_ok g" and "Join [dir, f] = Join [dir, g]"
  shows "f = g"
proof -
  from assms have "join_prefix dir @ f = join_prefix dir @ g"
    by (simp only: Join_dir_name)
  then show ?thesis by simp
qed

lemma Encode_inj:
  assumes "alphabet_ok enc" and "Encode enc x = Encode enc y"
  shows "x = y"
proof -
  have "DecodeString enc (Encode enc x) = (x, None)"
    using assms(1) by (rule DecodeString_EncodeToString)
  moreover have "DecodeString enc (Encode enc y) = (y, None)"
    using assms(1) by (rule DecodeString_EncodeToString)
  ultimately show ?thesis
    using assms(2) by (metis prod.inject)
qed

lemma name_chars_URL: "\<forall>c \<in> insert padChar (set encodeURL). c \<noteq> Separator \<and> c \<noteq> CHR ''.''"
  by (simp add: encodeURL_def padChar_def Separator_def)

lemma name_ok_file_name: "name_ok (EncodeToString encodeURL (bytes_of_string (service @ ''/'' @ key)))"
proof -
  have "bytes_of_string (service @ ''/'' @ key) \<noteq> []" by simp
  then have "Encode encodeURL (bytes_of_string (service @ ''/'' @ key)) \<noteq> []"
    by (rule Encode_nonempty)
  moreover have "set (Encode encodeURL (bytes_of_string (service @ ''/'' @ key))) \<subseteq> insert padChar (set encodeURL)"
    by (rule set_Encode) (simp add: encodeURL_def)
  ultimately show ?thesis
    using name_chars_URL
    by (simp only: name_ok_def EncodeToString_def) blast
qed

lemma file_name_eq_iff:
  "(EncodeToString encodeURL (bytes_of_string (s1 @ ''/'' @ k1)) =
    EncodeToString encodeURL (bytes_of_string (s2 @ ''/'' @ k2))) = (s1 @ ''/'' @ k1 = s2 @ ''/'' @ k2)"
proof
  assume "EncodeToString encodeURL (bytes_of_string (s1 @ ''/'' @ k1)) =
    EncodeToString encodeURL (bytes_of_string (s2 @ ''/'' @ k2))"
  then have "bytes_of_string (s1 @ ''/'' @ k1) = bytes_of_string (s2 @ ''/'' @ k2)"
    unfolding EncodeToString_def by (rule Encode_inj[OF alphabet_ok_URL])
  then show "s1 @ ''/'' @ k1 = s2 @ ''/'' @ k2"
    by (rule bytes_of_string_inj)
next
  assume "s1 @ ''/'' @ k1 = s2 @ ''/'' @ k2"
  then show "EncodeToString encodeURL (bytes_of_string (s1 @ ''/'' @ k1)) =
    EncodeToString encodeURL (bytes_of_string (s2 @ ''/'' @ k2))"
    by (simp only:)
qed

lemma split_at_separator:
  assumes "CHR ''/'' \<notin> set s1" "CHR ''/'' \<notin> set s2" "s1 @ ''/'' @ k1 = s2 @ ''/'' @ k2"
  shows "s1 = s2 \<and> k1 = k2"
proof -
  have t: "takeWhile (\<lambda>c. c \<noteq> CHR ''/'') (s @ ''/'' @ k) = s" if "CHR ''/'' \<notin> set s" for s k
    using that by (induction s) auto
  from assms have "s1 = s2" by (metis t)
  with assms(3) show ?thesis by simp
qed

lemma getStoragePath_result:
  "fst (getStoragePath gsd S service key w) = (p, None) \<Longrightarrow>
   \<exists>dir. fst (fst (gsd S w)) = dir \<and> snd (fst (gsd S w)) = None \<and>
     p = Join [dir, EncodeToString encodeURL (bytes_of_string (service @ ''/'' @ key))]"
  by (auto simp: getStoragePath_def Let_def split: prod.splits option.splits)

lemma backtrack_ge: "dotdot \<le> w \<Longrightarrow> dotdot \<le> backtrack out dotdot w"
proof (induction out dotdot w rule: backtrack.induct)
  case (1 out dotdot w)
  then show ?case
    by (subst backtrack.simps) auto
qed

lemma clean_loop_rooted:
  "rooted_inv st \<Longrightarrow> rooted_inv (clean_loop True st p)"
proof (induction True st p rule: clean_loop.induct)
  case (1 st)
  then show ?case by simp
next
  case (2 out dotdot c cs)
  from "2.prems" have inv: "out \<noteq> []" "hd out = Separator" "dotdot = 1"
    by (auto simp: rooted_inv_def)
  show ?case
  proof (cases "c = Separator")
    case True
    then show ?thesis using "2.hyps"(1) "2.prems" by (simp add: clean_loop_sep)
  next
    case notsep: False
    show ?thesis
    proof (cases "c = CHR ''.'' \<and> (cs = [] \<or> hd cs = Separator)")
      case True
      then show ?thesis using "2.hyps"(2)[OF notsep] "2.prems" by (simp add: clean_loop_dot)
    next
      case notdot: False
      show ?thesis
      proof (cases "c = CHR ''.'' \<and> hd cs = CHR ''.'' \<and> (tl cs = [] \<or> hd (tl cs) = Separator)")
        case True
        with notdot have nd: "\<not> (cs = [] \<or> hd cs = Separator)" by auto
        show ?thesis
        proof (cases "dotdot < length out")
          case lt: True
          have ge: "1 \<le> backtrack out dotdot (length out - 1)"
            using backtrack_ge[of dotdot "length out - 1" out] lt inv by simp
          then have "rooted_inv (take (backtrack out dotdot (length out - 1)) out, dotdot)"
            using inv by (cases out) (auto simp: rooted_inv_def take_Cons')
          from "2.hyps"(3)[OF notsep notdot True lt this] True nd lt
          show ?thesis
            by (simp add: clean_loop_dotdot)
        next
          case False
          from "2.hyps"(5)[OF notsep notdot True False] "2.prems" True nd False
          show ?thesis
            by (simp add: clean_loop_dotdot)
        qed
      next
        case False
        have "rooted_inv (sep_before True out @ takeWhile (\<lambda>x. x \<noteq> Separator) (c # cs), dotdot)"
          using inv by (auto simp: rooted_inv_def sep_before_def)
        from "2.hyps"(6)[OF notsep notdot False refl] this
        show ?thesis
          by (simp add: clean_loop_elem[OF notsep notdot False] sep_before_def)
      qed
    qed
  qed
qed

lemma join_prefix_ends: "join_prefix dir = [] \<or> last (join_prefix dir) = Separator"
proof (cases "dir \<noteq> [] \<and> hd dir = Separator")
  case True
  have "rooted_inv (clean_loop True ([Separator], 1) (tl dir))"
    by (rule clean_loop_rooted) (simp add: rooted_inv_def)
  then obtain out dd where o: "clean_loop True ([Separator], 1) (tl dir) = (out, dd)"
    and ne: "out \<noteq> []" and h: "hd out = Separator"
    by (cases "clean_loop True ([Separator], 1) (tl dir)") (auto simp: rooted_inv_def)
  have "length out = 1 \<Longrightarrow> last out = Separator"
    using ne h by (cases out) auto
  with True o show ?thesis
    by (auto simp: join_prefix_def Let_def sep_before_def)
next
  case False
  then show ?thesis
    by (auto simp: join_prefix_def Let_def sep_before_def)
qed

section \<open>Runs on Linux\<close>

lemma file_store_keeps_keyring:
  "keyring_untouched w (snd (setFileStorage getStorageDir_linux ideal service key val w))"
  "keyring_untouched w (snd (getFileStorage getStorageDir_linux ideal service key w))"
  "keyring_untouched w (snd (deleteFileStorage getStorageDir_linux ideal service key w))"
  by (auto simp: keyring_untouched_def setFileStorage_def getFileStorage_def deleteFileStorage_def
      getStoragePath_def getStorageDir_linux_ideal ideal_storage_dir_def ideal_MkdirAll_def
      ideal_WriteFile_def ideal_ReadFile_def ideal_Remove_def Let_def
      split: sum.splits option.splits prod.splits if_splits)

lemma secret_tool_keeps_files:
  "files_untouched w (snd (setSecretTool ideal service key val w))"
  "files_untouched w (snd (getSecretTool ideal service key w))"
  "files_untouched w (snd (deleteSecretTool ideal service key w))"
  by (auto simp: files_untouched_def setSecretTool_ideal getSecretTool_ideal deleteSecretTool_ideal
      split: option.splits)

lemma serve_linux_with_tool:
  "secret_tool_installed w \<Longrightarrow> files_untouched w (serve Linux ideal r w)"
  using secret_tool_keeps_files[of w]
  by (cases r)
     (auto simp: vault_Set_def vault_Get_def vault_Del_def facade_Set_def facade_Get_def
       facade_Del_def linux_set_def linux_get_def linux_del_def hasSecretTool_ideal
       files_untouched_def)

lemma serve_linux_without_tool:
  "\<not> secret_tool_installed w \<Longrightarrow> keyring_untouched w (serve Linux ideal r w)"
  using file_store_keeps_keyring[of w]
  by (cases r)
     (auto simp: vault_Set_def vault_Get_def vault_Del_def facade_Set_def facade_Get_def
       facade_Del_def linux_set_def linux_get_def linux_del_def hasSecretTool_ideal
       keyring_untouched_def)

lemma run_linux_with_tool:
  "secret_tool_installed w \<Longrightarrow> files_untouched w (run Linux ideal rs w)"
proof (induction rs arbitrary: w)
  case Nil
  then show ?case by (simp add: files_untouched_def)
next
  case (Cons r rs)
  from serve_linux_with_tool[OF Cons.prems, of r]
  have s: "files_untouched w (serve Linux ideal r w)" .
  then have "secret_tool_installed (serve Linux ideal r w)"
    using Cons.prems by (simp add: files_untouched_def)
  from Cons.IH[OF this] s show ?case
    by (simp add: files_untouched_def)
qed

lemma run_linux_without_tool:
  "\<not> secret_tool_installed w \<Longrightarrow> keyring_untouched w (run Linux ideal rs w)"
proof (induction rs arbitrary: w)
  case Nil
  then show ?case by (simp add: keyring_untouched_def)
next
  case (Cons r rs)
  from serve_linux_without_tool[OF Cons.prems, of r]
  have s: "keyring_untouched w (serve Linux ideal r w)" .
  then have "\<not> secret_tool_installed (serve Linux ideal r w)"
    using Cons.prems by (simp add: keyring_untouched_def)
  from Cons.IH[OF this] s show ?case
    by (simp add: keyring_untouched_def)
qed

section \<open>Deleting what was never stored\<close>

lemma lowered_cmdkey_message:
  "Contains (ToLower (\<lambda>s. s) ''CMDKEY: Element not found.'') ''not found''"
  by code_simp

lemma windows_del_ideal:
  "windows_del ideal service key w =
     (case credentials w (service @ ''/'' @ key) of
        None \<Rightarrow> (Some ErrNotFound, w)
      | Some p \<Rightarrow> (None, w\<lparr>credentials := (credentials w)(service @ ''/'' @ key := None)\<rparr>))"
  by (simp add: windows_del_def ideal_tools Let_def lowered_cmdkey_message split: option.splits)

lemma js_del_ideal:
  "js_del ideal service key w =
     (case object_store w (service @ ''/'' @ key) of
        None \<Rightarrow> (Some ErrNotFound, w)
      | Some v \<Rightarrow> (None, w\<lparr>object_store := (object_store w)(service @ ''/'' @ key := None)\<rparr>))"
  by (simp add: js_del_def withStore_def ideal_idb_get_def ideal_idb_delete_def Let_def
      split: option.splits)

lemma deleteFileStorage_ideal:
  assumes gsd: "\<And>w. gsd ideal w = ideal_storage_dir root w"
  shows "fst (deleteFileStorage gsd ideal service key w) =
     (case root w of
        Inl e \<Rightarrow> Some (fmt_Errorf ''vault: failed to get storage path: '' (Some e))
      | Inr dir \<Rightarrow>
          if files w dir \<noteq> None then
            Some (fmt_Errorf ''vault: failed to get storage path: ''
                     (Some (OsError (OtherOsError ''not a directory''))))
          else if files w (Join [dir, file_name service key]) \<noteq> None
                  \<or> Join [dir, file_name service key] \<in> insert dir (directories w)
          then None
          else Some ErrNotFound)"
  by (simp add: deleteFileStorage_def getStoragePath_def gsd ideal_storage_dir_def
      ideal_MkdirAll_def ideal_Remove_def file_name_def Let_def
      split: sum.splits option.splits prod.splits)

lemma fresh_roots:
  "root_ios fresh = Inr ''/home/user/Library/Application Support/vault-secrets''"
  "root_android fresh = Inr ''/data/app/.vault-secrets''"
  "root_linux fresh = Inr ''/home/user/.local/share/vault-secrets''"
  by code_simp+

lemma fresh_prefixes:
  "join_prefix ''/home/user/Library/Application Support/vault-secrets''
     = ''/home/user/Library/Application Support/vault-secrets'' @ ''/''"
  "join_prefix ''/data/app/.vault-secrets'' = ''/data/app/.vault-secrets'' @ ''/''"
  "join_prefix ''/home/user/.local/share/vault-secrets''
     = ''/home/user/.local/share/vault-secrets'' @ ''/''"
  by code_simp+

lemma file_del_fresh:
  assumes gsd: "\<And>w. gsd ideal w = ideal_storage_dir root w"
    and root: "root fresh = Inr dir" and pre: "join_prefix dir = dir @ ''/''"
  shows "fst (deleteFileStorage gsd ideal service key fresh) = Some ErrNotFound"
proof -
  have "Join [dir, file_name service key] = dir @ ''/'' @ file_name service key"
    using Join_dir_name[OF name_ok_file_name, of dir service key] pre
    by (simp add: file_name_def)
  then have ne: "Join [dir, file_name service key] \<noteq> dir"
    by simp
  have empty: "files fresh = Map.empty" "directories fresh = {}"
    by (simp_all add: fresh_def)
  show ?thesis
    using ne
    by (simp add: deleteFileStorage_ideal[where gsd = gsd and root = root, OF gsd] root empty)
qed

lemma del_absent_fresh:
  "fst (backend_del p ideal service key fresh) = Some ErrNotFound"
proof (cases p)
  case Darwin
  then show ?thesis by (simp add: darwin_del_ideal fresh_def)
next
  case Windows
  then show ?thesis by (simp add: windows_del_ideal fresh_def)
next
  case Linux
  have "\<not> hasSecretTool ideal fresh" by (simp add: hasSecretTool_ideal fresh_def)
  with Linux show ?thesis
    using file_del_fresh[where gsd = getStorageDir_linux and root = root_linux,
        OF getStorageDir_linux_ideal fresh_roots(3) fresh_prefixes(3)]
    by (simp add: linux_del_def)
next
  case IOS
  then show ?thesis
    using file_del_fresh[where gsd = getStorageDir_ios and root = root_ios,
        OF getStorageDir_ios_ideal fresh_roots(1) fresh_prefixes(1)]
    by simp
next
  case Android
  then show ?thesis
    using file_del_fresh[where gsd = getStorageDir_android and root = root_android,
        OF getStorageDir_android_ideal fresh_roots(2) fresh_prefixes(2)]
    by simp
next
  case JS
  then show ?thesis by (simp add: js_del_ideal fresh_def)
qed

section \<open>What the adapters do with failures\<close>

lemma getFileStorage_decode_error:
  "fst (getStoragePath gsd S service key w) = (path, None) \<Longrightarrow>
   fst (ReadFile S path (snd (getStoragePath gsd S service key w))) = Inr data \<Longrightarrow>
   snd (DecodeString encodeStd (TrimSpace (string_of_bytes data))) = Some n \<Longrightarrow>
   fst (getFileStorage gsd S service key w) =
     ([], Some (fmt_Errorf ''vault: failed to decode secret: '' (Some (CorruptInputError n))))"
  by (auto simp: getFileStorage_def split: prod.splits option.splits sum.splits)

lemma darwin_get_decode_error:
  "\<not> run_failed (fst (exec_Command S ''security''
        [Arg ''find-generic-password'', Arg ''-a'', Arg key, Arg ''-s'', Arg service, Arg ''-w''] [] w)) \<Longrightarrow>
   snd (DecodeString encodeStd (TrimSpace (stdout (fst (exec_Command S ''security''
        [Arg ''find-generic-password'', Arg ''-a'', Arg key, Arg ''-s'', Arg service, Arg ''-w''] [] w))))) = Some n \<Longrightarrow>
   fst (darwin_get S service key w) =
     ([], Some (fmt_Errorf ''vault: failed to decode value: '' (Some (CorruptInputError n))))"
  by (auto simp: darwin_get_def Let_def split: prod.splits option.splits)

lemma DecodeString_Nil: "DecodeString enc [] = ([], None)"
  by (simp add: DecodeString_def Decode_loop_Nil)

lemma windows_get_decode_error:
  "\<not> run_failed (fst (exec_Command S ''powershell''
        [Arg ''-NoProfile'', Arg ''-NonInteractive'', Arg ''-Command'',
         Sprintf get_script [service @ ''/'' @ key, service @ ''/'' @ key]] [] w)) \<Longrightarrow>
   snd (DecodeString encodeStd (TrimSpace (stdout (fst (exec_Command S ''powershell''
        [Arg ''-NoProfile'', Arg ''-NonInteractive'', Arg ''-Command'',
         Sprintf get_script [service @ ''/'' @ key, service @ ''/'' @ key]] [] w))))) = Some n \<Longrightarrow>
   fst (windows_get S service key w) =
     ([], Some (fmt_Errorf ''vault: failed to decode value: '' (Some (CorruptInputError n))))"
  by (auto simp: windows_get_def Let_def DecodeString_Nil split: prod.splits option.splits)

lemma js_get_decode_error:
  "fst (idb_open S dbName 1 w) \<Longrightarrow>
   fst (idb_get S storeName (service @ ''/'' @ key) (snd (idb_open S dbName 1 w))) = IdbRecord encoded \<Longrightarrow>
   snd (DecodeString encodeStd encoded) = Some n \<Longrightarrow>
   fst (js_get S service key w) = ([], Some (CorruptInputError n))"
  by (auto simp: js_get_def Let_def split: prod.splits option.splits bool.splits idb_lookup.splits)

lemma darwin_get_no_partial: "snd (fst (darwin_get S service key w)) \<noteq> None \<Longrightarrow> fst (fst (darwin_get S service key w)) = []"
  by (auto simp: darwin_get_def Let_def split: prod.splits if_splits option.splits)

lemma windows_get_no_partial: "snd (fst (windows_get S service key w)) \<noteq> None \<Longrightarrow> fst (fst (windows_get S service key w)) = []"
  by (auto simp: windows_get_def Let_def split: prod.splits if_splits option.splits)

lemma getFileStorage_no_partial: "snd (fst (getFileStorage gsd S service key w)) \<noteq> None \<Longrightarrow> fst (fst (getFileStorage gsd S service key w)) = []"
  by (auto simp: getFileStorage_def Let_def split: prod.splits if_splits option.splits sum.splits)

lemma linux_get_no_partial: "snd (fst (linux_get S service key w)) \<noteq> None \<Longrightarrow> fst (fst (linux_get S service key w)) = []"
  by (auto simp: linux_get_def getSecretTool_def Let_def getFileStorage_no_partial split: prod.splits if_splits option.splits)

lemma js_get_no_partial: "snd (fst (js_get S service key w)) \<noteq> None \<Longrightarrow> fst (fst (js_get S service key w)) = []"
  by (auto simp: js_get_def Let_def split: prod.splits if_splits option.splits idb_lookup.splits bool.splits)

lemma backend_get_no_partial:
  "snd (fst (backend_get p S service key w)) \<noteq> None \<Longrightarrow> fst (fst (backend_get p S service key w)) = []"
  by (cases p) (simp_all add: darwin_get_no_partial windows_get_no_partial linux_get_no_partial getFileStorage_no_partial js_get_no_partial)

lemma windows_get_run_failed:
  "run_failed (fst (exec_Command S ''powershell''
        [Arg ''-NoProfile'', Arg ''-NonInteractive'', Arg ''-Command'',
         Sprintf get_script [service @ ''/'' @ key, service @ ''/'' @ key]] [] w)) \<Longrightarrow>
   fst (windows_get S service key w) = ([], Some ErrNotFound)"
  by (auto simp: windows_get_def Let_def split: prod.splits)

lemma deleteSecretTool_not_NotFound: "fst (deleteSecretTool S service key w) \<noteq> Some ErrNotFound"
  by (auto simp: deleteSecretTool_def split: prod.splits)

section \<open>The claims\<close>

text \<open>
  C1. \<^verbatim>\<open>Set\<close>, \<^verbatim>\<open>Get\<close> and \<^verbatim>\<open>Del\<close> with an empty service or an empty key return
  \<^verbatim>\<open>ErrInvalidKey\<close>, and \<^verbatim>\<open>Set\<close> with a non-empty service and key and an empty value
  returns \<^verbatim>\<open>ErrInvalidValue\<close>, in both cases whatever backend they are linked with, on
  every platform and whatever the facilities would do, and with the world as it was: no
  backend operation has run. A backend that records its calls is only ever called with a
  non-empty service and key, and by \<^verbatim>\<open>Set\<close> with a non-empty value.
\<close>

theorem facade_validates_first:
  "(service = [] \<or> key = [] \<longrightarrow>
      facade_Set set_impl service key val w = (Some ErrInvalidKey, w) \<and>
      facade_Get get_impl service key w = (([], Some ErrInvalidKey), w) \<and>
      facade_Del del_impl service key w = (Some ErrInvalidKey, w) \<and>
      vault_Set p S service key val w = (Some ErrInvalidKey, w) \<and>
      vault_Get p S service key w = (([], Some ErrInvalidKey), w) \<and>
      vault_Del p S service key w = (Some ErrInvalidKey, w)) \<and>
   (service \<noteq> [] \<and> key \<noteq> [] \<and> val = [] \<longrightarrow>
      facade_Set set_impl service key val w = (Some ErrInvalidValue, w) \<and>
      vault_Set p S service key val w = (Some ErrInvalidValue, w)) \<and>
   (list_all well_formed log \<longrightarrow>
      list_all well_formed (snd (facade_Set recording_set service key val log)) \<and>
      list_all well_formed (snd (facade_Get recording_get service key log)) \<and>
      list_all well_formed (snd (facade_Del recording_del service key log)))"
  by (simp add: facade_Set_def facade_Get_def facade_Del_def vault_Set_def vault_Get_def
      vault_Del_def recording_set_def recording_get_def recording_del_def)

theorem facade_validates_first_witness:
  "vault_Set Linux ideal [] ''k'' [1] fresh = (Some ErrInvalidKey, fresh) \<and>
   vault_Get IOS ideal ''s'' [] fresh = (([], Some ErrInvalidKey), fresh) \<and>
   vault_Del JS ideal [] [] fresh = (Some ErrInvalidKey, fresh) \<and>
   vault_Set Darwin ideal ''s'' ''k'' [] fresh = (Some ErrInvalidValue, fresh) \<and>
   list_all well_formed (snd (facade_Set recording_set ''s'' ''k'' [1] [])) \<and>
   list_all well_formed (snd (facade_Get recording_get ''s'' [] [GetCall ''a'' ''b'']))"
  using facade_validates_first[where service = "[]" and key = "''k''" and val = "[1]"
      and p = Linux and S = ideal and w = fresh]
    facade_validates_first[where service = "''s''" and key = "[]" and p = IOS and S = ideal
      and w = fresh and log = "[GetCall ''a'' ''b'']"]
    facade_validates_first[where service = "[]" and key = "[]" and p = JS and S = ideal
      and w = fresh]
    facade_validates_first[where service = "''s''" and key = "''k''" and val = "[]"
      and p = Darwin and S = ideal and w = fresh]
    facade_validates_first[where service = "''s''" and key = "''k''" and val = "[1]"
      and log = "[]"]
  by simp



text \<open>
  C3, as the claim states it, fails: the identities \<^verbatim>\<open>("a/b", "c")\<close> and
  \<^verbatim>\<open>("a", "b/c")\<close> are distinct and get the same storage path, so a value stored under
  one is read back under the other.
\<close>

theorem storage_path_collision:
  "(''a/b'', ''c'') \<noteq> (''a'', ''b/c'') \<and>
   fst (getStoragePath getStorageDir_android ideal ''a/b'' ''c'' fresh) =
     (''/data/app/.vault-secrets/YS9iL2M='', None) \<and>
   fst (getStoragePath getStorageDir_android ideal ''a'' ''b/c'' fresh) =
     (''/data/app/.vault-secrets/YS9iL2M='', None) \<and>
   fst (vault_Get Android ideal ''a'' ''b/c''
          (snd (vault_Set Android ideal ''a/b'' ''c'' [1] fresh))) = ([1], None)"
  by code_simp

text \<open>
  C3, amended. Where \<^verbatim>\<open>getStorageDir\<close> succeeds with the directory \<open>dir\<close>, the storage
  path of an identity is \<open>join_prefix dir\<close>, which ends in a separator unless it is
  empty and does not depend on the identity, followed by the URL-safe base64 encoding of
  \<^verbatim>\<open>service + "/" + key\<close>. That file name is not empty and consists of letters, digits,
  \<^verbatim>\<open>-\<close>, \<^verbatim>\<open>_\<close> and \<^verbatim>\<open>=\<close>, so it holds no separator and no dot: the identity cannot
  add a path element or leave the directory. Two identities get the same path exactly
  when \<^verbatim>\<open>service + "/" + key\<close> is the same string for both; identities whose services
  hold no \<^verbatim>\<open>/\<close> never share a path unless they are equal.
\<close>

theorem storage_path_of_identity:
  "fst (gsd S w) = (dir, None) \<longrightarrow>
     fst (getStoragePath gsd S service key w) =
       (join_prefix dir @ EncodeToString encodeURL (bytes_of_string (service @ ''/'' @ key)),
        None) \<and>
     (join_prefix dir = [] \<or> last (join_prefix dir) = Separator) \<and>
     name_ok (EncodeToString encodeURL (bytes_of_string (service @ ''/'' @ key))) \<and>
     set (EncodeToString encodeURL (bytes_of_string (service @ ''/'' @ key)))
       \<subseteq> insert padChar (set encodeURL) \<and>
     ((fst (getStoragePath gsd S service key w) = fst (getStoragePath gsd S service' key' w))
        = (service @ ''/'' @ key = service' @ ''/'' @ key')) \<and>
     (CHR ''/'' \<notin> set service \<and> CHR ''/'' \<notin> set service' \<and>
      fst (getStoragePath gsd S service key w) = fst (getStoragePath gsd S service' key' w)
        \<longrightarrow> service = service' \<and> key = key')"
proof
  assume d: "fst (gsd S w) = (dir, None)"
  let ?n = "EncodeToString encodeURL (bytes_of_string (service @ ''/'' @ key))"
  let ?n' = "EncodeToString encodeURL (bytes_of_string (service' @ ''/'' @ key'))"
  have p: "fst (getStoragePath gsd S s k w) =
      (Join [dir, EncodeToString encodeURL (bytes_of_string (s @ ''/'' @ k))], None)" for s k
    using d by (cases "gsd S w") (auto simp: getStoragePath_def Let_def)
  have path: "fst (getStoragePath gsd S service key w) = (join_prefix dir @ ?n, None)"
    by (simp only: p Join_dir_name[OF name_ok_file_name])
  have chars: "set ?n \<subseteq> insert padChar (set encodeURL)"
    unfolding EncodeToString_def by (rule set_Encode) (simp add: encodeURL_def)
  have same: "(fst (getStoragePath gsd S service key w) = fst (getStoragePath gsd S service' key' w))
      = (service @ ''/'' @ key = service' @ ''/'' @ key')"
  proof -
    have "(Join [dir, ?n] = Join [dir, ?n']) = (?n = ?n')"
      using Join_inj[OF name_ok_file_name name_ok_file_name] by auto
    then show ?thesis
      by (simp only: p file_name_eq_iff prod.inject simp_thms)
  qed
  have apart: "CHR ''/'' \<notin> set service \<and> CHR ''/'' \<notin> set service' \<and>
      fst (getStoragePath gsd S service key w) = fst (getStoragePath gsd S service' key' w)
        \<longrightarrow> service = service' \<and> key = key'"
    using same split_at_separator[of service service' key key'] by blast
  from path join_prefix_ends[of dir] name_ok_file_name[of service key] chars same apart
  show "fst (getStoragePath gsd S service key w) = (join_prefix dir @ ?n, None) \<and>
     (join_prefix dir = [] \<or> last (join_prefix dir) = Separator) \<and>
     name_ok ?n \<and> set ?n \<subseteq> insert padChar (set encodeURL) \<and>
     ((fst (getStoragePath gsd S service key w) = fst (getStoragePath gsd S service' key' w))
        = (service @ ''/'' @ key = service' @ ''/'' @ key')) \<and>
     (CHR ''/'' \<notin> set service \<and> CHR ''/'' \<notin> set service' \<and>
      fst (getStoragePath gsd S service key w) = fst (getStoragePath gsd S service' key' w)
        \<longrightarrow> service = service' \<and> key = key')"
    by blast
qed

theorem storage_path_of_identity_witness:
  "fst (getStorageDir_ios ideal fresh) =
     (''/home/user/Library/Application Support/vault-secrets'', None) \<and>
   fst (getStoragePath getStorageDir_ios ideal ''app1'' ''k'' fresh) =
     (join_prefix ''/home/user/Library/Application Support/vault-secrets'' @
        EncodeToString encodeURL (bytes_of_string (''app1'' @ ''/'' @ ''k'')), None) \<and>
   fst (getStoragePath getStorageDir_ios ideal ''app1'' ''k'' fresh) \<noteq>
     fst (getStoragePath getStorageDir_ios ideal ''app2'' ''k'' fresh)"
proof -
  have d: "fst (getStorageDir_ios ideal fresh) =
     (''/home/user/Library/Application Support/vault-secrets'', None)"
    by code_simp
  have s: "CHR ''/'' \<notin> set ''app1'' \<and> CHR ''/'' \<notin> set ''app2''"
    by simp
  from d s storage_path_of_identity[where gsd = getStorageDir_ios and S = ideal and w = fresh
      and dir = "''/home/user/Library/Application Support/vault-secrets''"
      and service = "''app1''" and key = "''k''" and service' = "''app2''" and key' = "''k''"]
  show ?thesis by auto
qed

text \<open>
  C4, as the claim states it, fails. On a machine without \<^verbatim>\<open>secret-tool\<close> a value is
  stored, through the file store; the tool is installed afterwards, and the next \<^verbatim>\<open>Get\<close>
  of the same process asks \<^verbatim>\<open>secret-tool\<close> and answers \<^verbatim>\<open>ErrNotFound\<close>, although the
  file is still there: the probe is repeated and the backends are mixed.
\<close>

theorem backends_mixed_after_install:
  "fst (vault_Set Linux ideal ''app'' ''k'' [1, 2, 3] fresh) = None \<and>
   fst (vault_Get Linux ideal ''app'' ''k'' after_file_set) = ([1, 2, 3], None) \<and>
   fst (vault_Get Linux ideal ''app'' ''k'' tool_installed_later) = ([], Some ErrNotFound) \<and>
   files tool_installed_later = files after_file_set"
proof -
  have "fst (vault_Set Linux ideal ''app'' ''k'' [1, 2, 3] fresh) = None"
    by code_simp
  moreover have "fst (vault_Get Linux ideal ''app'' ''k'' after_file_set) = ([1, 2, 3], None)"
    by code_simp
  moreover have "fst (vault_Get Linux ideal ''app'' ''k'' tool_installed_later)
      = ([], Some ErrNotFound)"
    by code_simp
  moreover have "files tool_installed_later = files after_file_set"
    by (simp add: tool_installed_later_def)
  ultimately show ?thesis by blast
qed

text \<open>
  C4, amended. On Linux every call of \<^verbatim>\<open>Set\<close>, \<^verbatim>\<open>Get\<close> and \<^verbatim>\<open>Del\<close> probes for
  \<^verbatim>\<open>secret-tool\<close> and takes the backend the probe of that call selects. As long as the
  availability of the tool does not change, which the calls themselves never do in the
  world of well-behaved tools, a run does not mix the backends: with the tool present no
  call of the run touches a file or a directory, and without it no call touches the
  keyring.
\<close>

theorem backend_chosen_at_every_call:
  "vault_Set Linux S service key val w =
     (if hasSecretTool S w then facade_Set (setSecretTool S) service key val w
      else facade_Set (setFileStorage getStorageDir_linux S) service key val w) \<and>
   vault_Get Linux S service key w =
     (if hasSecretTool S w then facade_Get (getSecretTool S) service key w
      else facade_Get (getFileStorage getStorageDir_linux S) service key w) \<and>
   vault_Del Linux S service key w =
     (if hasSecretTool S w then facade_Del (deleteSecretTool S) service key w
      else facade_Del (deleteFileStorage getStorageDir_linux S) service key w) \<and>
   (hasSecretTool ideal w0 \<longrightarrow> files_untouched w0 (run Linux ideal rs w0)) \<and>
   (\<not> hasSecretTool ideal w0 \<longrightarrow> keyring_untouched w0 (run Linux ideal rs w0))"
  using run_linux_with_tool[of w0 rs] run_linux_without_tool[of w0 rs]
  by (simp add: vault_Set_def vault_Get_def vault_Del_def facade_Set_def facade_Get_def
      facade_Del_def linux_set_def linux_get_def linux_del_def hasSecretTool_ideal)

theorem backend_chosen_at_every_call_witness:
  "keyring (run Linux ideal [SetReq ''app'' ''k'' [1], GetReq ''app'' ''k'', DelReq ''app'' ''k'']
      fresh) = keyring fresh \<and>
   files (run Linux ideal [SetReq ''app'' ''k'' [1], GetReq ''app'' ''k'', DelReq ''app'' ''k'']
      (fresh\<lparr>secret_tool_installed := True\<rparr>)) = files fresh"
proof -
  let ?rs = "[SetReq ''app'' ''k'' [1], GetReq ''app'' ''k'', DelReq ''app'' ''k'']"
  have absent: "\<not> hasSecretTool ideal fresh"
    by (simp add: hasSecretTool_ideal fresh_def)
  have present: "hasSecretTool ideal (fresh\<lparr>secret_tool_installed := True\<rparr>)"
    by (simp add: hasSecretTool_ideal)
  from absent
    backend_chosen_at_every_call[where ?w0.0 = fresh and rs = ?rs and S = ideal
      and service = "[]" and key = "[]" and val = "[]" and w = fresh]
  have "keyring_untouched fresh (run Linux ideal ?rs fresh)"
    by blast
  moreover from present
    backend_chosen_at_every_call[where ?w0.0 = "fresh\<lparr>secret_tool_installed := True\<rparr>"
      and rs = ?rs and S = ideal and service = "[]" and key = "[]" and val = "[]" and w = fresh]
  have "files_untouched (fresh\<lparr>secret_tool_installed := True\<rparr>)
      (run Linux ideal ?rs (fresh\<lparr>secret_tool_installed := True\<rparr>))"
    by blast
  ultimately show ?thesis
    by (simp add: keyring_untouched_def files_untouched_def)
qed

text \<open>
  C5. The retrieve operation on Windows returns \<^verbatim>\<open>ErrNotFound\<close> whenever running
  PowerShell fails, whatever the reason and whatever was written to the captured standard
  error; on Linux, \<^verbatim>\<open>getSecretTool\<close> returns \<^verbatim>\<open>ErrNotFound\<close> whenever the run fails
  with nothing on standard output. A failure of the primitive that is not absence is
  therefore reported as absence, which the claim excludes. The keychain adapter does
  what the claim says: a failed run without one of the two known diagnostics is a
  formatted failure.
\<close>

theorem retrieve_failure_reported_as_absence:
  "(service \<noteq> [] \<and> key \<noteq> [] \<and>
    run_failed (fst (exec_Command S ''powershell''
        [Arg ''-NoProfile'', Arg ''-NonInteractive'', Arg ''-Command'',
         Sprintf get_script [service @ ''/'' @ key, service @ ''/'' @ key]] [] w)) \<longrightarrow>
      fst (vault_Get Windows S service key w) = ([], Some ErrNotFound)) \<and>
   (service \<noteq> [] \<and> key \<noteq> [] \<and> hasSecretTool S w \<and>
    run_failed (fst (exec_Command S ''secret-tool''
        [Arg ''lookup'', Arg ''service'', Arg service, Arg ''key'', Arg key] [] w)) \<and>
    stdout (fst (exec_Command S ''secret-tool''
        [Arg ''lookup'', Arg ''service'', Arg service, Arg ''key'', Arg key] [] w)) = [] \<longrightarrow>
      fst (vault_Get Linux S service key w) = ([], Some ErrNotFound)) \<and>
   (service \<noteq> [] \<and> key \<noteq> [] \<and>
    run_failed (fst (exec_Command S ''security''
        [Arg ''find-generic-password'', Arg ''-a'', Arg key, Arg ''-s'', Arg service,
         Arg ''-w''] [] w)) \<and>
    \<not> Contains (stderr (fst (exec_Command S ''security''
        [Arg ''find-generic-password'', Arg ''-a'', Arg key, Arg ''-s'', Arg service,
         Arg ''-w''] [] w))) ''could not be found'' \<and>
    \<not> Contains (stderr (fst (exec_Command S ''security''
        [Arg ''find-generic-password'', Arg ''-a'', Arg key, Arg ''-s'', Arg service,
         Arg ''-w''] [] w))) ''SecKeychainSearchCopyNext'' \<longrightarrow>
      fst (vault_Get Darwin S service key w) =
        ([], Some (fmt_Errorf (''vault: failed to get key: '' @
           stderr (fst (exec_Command S ''security''
             [Arg ''find-generic-password'', Arg ''-a'', Arg key, Arg ''-s'', Arg service,
              Arg ''-w''] [] w))) None)))"
  using windows_get_run_failed[of S service key w]
  by (auto simp: vault_Get_def facade_Get_def linux_get_def getSecretTool_def darwin_get_def
      Let_def split: prod.splits)

theorem retrieve_failure_reported_as_absence_witness:
  "fst (vault_Get Windows denied ''myapp'' ''api-key'' fresh) = ([], Some ErrNotFound) \<and>
   fst (vault_Get Linux denied ''myapp'' ''api-key'' (fresh\<lparr>secret_tool_installed := True\<rparr>))
     = ([], Some ErrNotFound) \<and>
   fst (vault_Get Darwin denied ''myapp'' ''api-key'' fresh)
     = ([], Some (fmt_Errorf ''vault: failed to get key: Access is denied.'' None)) \<and>
   stderr (fst (exec_Command denied ''powershell''
        [Arg ''-NoProfile'', Arg ''-NonInteractive'', Arg ''-Command'',
         Sprintf get_script [''myapp/api-key'', ''myapp/api-key'']] [] fresh))
     = ''Access is denied.''"
  using retrieve_failure_reported_as_absence[where S = denied and service = "''myapp''"
      and key = "''api-key''" and w = fresh]
    retrieve_failure_reported_as_absence[where S = denied and service = "''myapp''"
      and key = "''api-key''" and w = "fresh\<lparr>secret_tool_installed := True\<rparr>"]
  by (simp add: denied_def exited_def hasSecretTool_def ideal_def)

text \<open>
  C6. With \<^verbatim>\<open>secret-tool\<close> on the path, \<^verbatim>\<open>Del\<close> on Linux never returns
  \<^verbatim>\<open>ErrNotFound\<close>, whatever the tool reports: \<^verbatim>\<open>deleteSecretTool\<close> returns no error
  when the tool exits with status 0 and a formatted failure otherwise. Deleting an
  identity that was never stored is therefore not answered with \<^verbatim>\<open>ErrNotFound\<close> there,
  which the claim, the comment of \<^verbatim>\<open>Del\<close> and \<^verbatim>\<open>TestDelNotFound\<close> ask for. Every
  other backend, the file store of Linux included, does answer \<^verbatim>\<open>ErrNotFound\<close> in
  the empty world of well-behaved tools.
\<close>

theorem secret_tool_delete_never_NotFound:
  "(service \<noteq> [] \<and> key \<noteq> [] \<and> hasSecretTool S w \<longrightarrow>
      fst (vault_Del Linux S service key w) \<noteq> Some ErrNotFound) \<and>
   (service \<noteq> [] \<and> key \<noteq> [] \<longrightarrow>
      fst (vault_Del p ideal service key fresh) = Some ErrNotFound)"
  using deleteSecretTool_not_NotFound[of S service key w] del_absent_fresh[of p service key]
  by (simp add: vault_Del_def facade_Del_def linux_del_def)

theorem secret_tool_delete_never_NotFound_witness:
  "hasSecretTool ideal (fresh\<lparr>secret_tool_installed := True\<rparr>) \<and>
   keyring (fresh\<lparr>secret_tool_installed := True\<rparr>)
     (''vault-test-service'', ''nonexistent-key-12345'') = None \<and>
   fst (vault_Del Linux ideal ''vault-test-service'' ''nonexistent-key-12345''
          (fresh\<lparr>secret_tool_installed := True\<rparr>)) \<noteq> Some ErrNotFound \<and>
   fst (vault_Del Linux ideal ''vault-test-service'' ''nonexistent-key-12345'' fresh)
     = Some ErrNotFound \<and>
   fst (vault_Del Darwin ideal ''vault-test-service'' ''nonexistent-key-12345'' fresh)
     = Some ErrNotFound"
  using secret_tool_delete_never_NotFound[where S = ideal
      and service = "''vault-test-service''" and key = "''nonexistent-key-12345''"
      and w = "fresh\<lparr>secret_tool_installed := True\<rparr>" and p = Linux]
    secret_tool_delete_never_NotFound[where S = ideal
      and service = "''vault-test-service''" and key = "''nonexistent-key-12345''"
      and w = "fresh\<lparr>secret_tool_installed := True\<rparr>" and p = Darwin]
  by (simp add: hasSecretTool_def ideal_def fresh_def)



text \<open>
  C8. Decoding undoes encoding for every byte sequence, the empty one included, and
  white space around the encoded text, which \<^verbatim>\<open>TrimSpace\<close> strips before the adapters
  decode, does not change the bytes recovered.
\<close>

theorem transport_roundtrip:
  "DecodeString encodeStd (EncodeToString encodeStd x) = (x, None) \<and>
   ((\<forall>c \<in> set l. asciiSpace c) \<and> (\<forall>c \<in> set r. asciiSpace c) \<longrightarrow>
      DecodeString encodeStd (TrimSpace (l @ EncodeToString encodeStd x @ r)) = (x, None))"
proof -
  have "DecodeString encodeStd (EncodeToString encodeStd x) = (x, None)"
    by (simp add: EncodeToString_def DecodeString_EncodeToString[OF alphabet_ok_Std])
  then show ?thesis
    using DecodeString_TrimSpace_Encode[of l r x] by blast
qed

theorem transport_roundtrip_witness:
  "DecodeString encodeStd
     (TrimSpace (''  '' @ EncodeToString encodeStd [0, 0, 0xFF, 0x80] @ [CHR 0x0D, CHR 0x0A]))
   = ([0, 0, 0xFF, 0x80], None) \<and>
   DecodeString encodeStd (TrimSpace (EncodeToString encodeStd [] @ [CHR 0x0A])) = ([], None)"
  using transport_roundtrip[where x = "[0, 0, 0xFF, 0x80]" and l = "''  ''"
      and r = "[CHR 0x0D, CHR 0x0A]"]
    transport_roundtrip[where x = "[]" and l = "[]" and r = "[CHR 0x0A]"]
  by (simp add: asciiSpace_def)

text \<open>
  C9. When the text an adapter reads back does not decode, \<^verbatim>\<open>get\<close> returns no bytes and
  an error that wraps the decoder's \<^verbatim>\<open>CorruptInputError\<close> (the browser adapter returns
  that error itself), never \<^verbatim>\<open>ErrNotFound\<close>: for the file store of the iOS, Android and
  Linux files, for the keychain, for the credential manager and for IndexedDB, whatever
  the facilities do otherwise. (The \<^verbatim>\<open>secret-tool\<close> path does not decode.) On every
  platform a \<^verbatim>\<open>get\<close> that returns an error returns no bytes with it.
\<close>

theorem decode_failure_is_reported:
  "(fst (getStoragePath gsd S service key w) = (path, None) \<and>
    fst (ReadFile S path (snd (getStoragePath gsd S service key w))) = Inr data \<and>
    snd (DecodeString encodeStd (TrimSpace (string_of_bytes data))) = Some n \<longrightarrow>
      fst (getFileStorage gsd S service key w) =
        ([], Some (fmt_Errorf ''vault: failed to decode secret: ''
                     (Some (CorruptInputError n))))) \<and>
   (\<not> run_failed (fst (exec_Command S ''security''
        [Arg ''find-generic-password'', Arg ''-a'', Arg key, Arg ''-s'', Arg service,
         Arg ''-w''] [] w)) \<and>
    snd (DecodeString encodeStd (TrimSpace (stdout (fst (exec_Command S ''security''
        [Arg ''find-generic-password'', Arg ''-a'', Arg key, Arg ''-s'', Arg service,
         Arg ''-w''] [] w))))) = Some n \<longrightarrow>
      fst (darwin_get S service key w) =
        ([], Some (fmt_Errorf ''vault: failed to decode value: ''
                     (Some (CorruptInputError n))))) \<and>
   (\<not> run_failed (fst (exec_Command S ''powershell''
        [Arg ''-NoProfile'', Arg ''-NonInteractive'', Arg ''-Command'',
         Sprintf get_script [service @ ''/'' @ key, service @ ''/'' @ key]] [] w)) \<and>
    snd (DecodeString encodeStd (TrimSpace (stdout (fst (exec_Command S ''powershell''
        [Arg ''-NoProfile'', Arg ''-NonInteractive'', Arg ''-Command'',
         Sprintf get_script [service @ ''/'' @ key, service @ ''/'' @ key]] [] w))))) = Some n \<longrightarrow>
      fst (windows_get S service key w) =
        ([], Some (fmt_Errorf ''vault: failed to decode value: ''
                     (Some (CorruptInputError n))))) \<and>
   (fst (idb_open S dbName 1 w) \<and>
    fst (idb_get S storeName (service @ ''/'' @ key) (snd (idb_open S dbName 1 w)))
      = IdbRecord encoded \<and>
    snd (DecodeString encodeStd encoded) = Some n \<longrightarrow>
      fst (js_get S service key w) = ([], Some (CorruptInputError n))) \<and>
   (snd (fst (backend_get p S service key w)) \<noteq> None \<longrightarrow>
      fst (fst (backend_get p S service key w)) = [])"
  using getFileStorage_decode_error[of gsd S service key w path data n]
    darwin_get_decode_error[of S key service w n]
    windows_get_decode_error[of S service key w n]
    js_get_decode_error[of S w service key encoded n]
    backend_get_no_partial[of p S service key w]
  by blast

theorem decode_failure_is_reported_witness:
  "fst (backend_get Linux ideal ''app'' ''k'' corrupted) =
     ([], Some (fmt_Errorf ''vault: failed to decode secret: '' (Some (CorruptInputError 0)))) \<and>
   fst (backend_get Darwin ideal ''app'' ''k'' corrupted) =
     ([], Some (fmt_Errorf ''vault: failed to decode value: '' (Some (CorruptInputError 0)))) \<and>
   fst (backend_get Windows ideal ''app'' ''k'' corrupted) =
     ([], Some (fmt_Errorf ''vault: failed to decode value: '' (Some (CorruptInputError 0)))) \<and>
   fst (backend_get JS ideal ''app'' ''k'' corrupted) = ([], Some (CorruptInputError 0))"
proof -
  have f1: "fst (getStoragePath getStorageDir_linux ideal ''app'' ''k'' corrupted) =
      (''/home/user/.local/share/vault-secrets/YXBwL2s='', None)"
    by code_simp
  have f2: "fst (ReadFile ideal ''/home/user/.local/share/vault-secrets/YXBwL2s=''
      (snd (getStoragePath getStorageDir_linux ideal ''app'' ''k'' corrupted))) =
      Inr (bytes_of_string ''%%%'')"
    by code_simp
  have f3: "snd (DecodeString encodeStd (TrimSpace (string_of_bytes (bytes_of_string ''%%%''))))
      = Some 0"
    by code_simp
  have d1: "\<not> run_failed (fst (exec_Command ideal ''security''
        [Arg ''find-generic-password'', Arg ''-a'', Arg ''k'', Arg ''-s'', Arg ''app'',
         Arg ''-w''] [] corrupted))"
    by code_simp
  have d2: "snd (DecodeString encodeStd (TrimSpace (stdout (fst (exec_Command ideal ''security''
        [Arg ''find-generic-password'', Arg ''-a'', Arg ''k'', Arg ''-s'', Arg ''app'',
         Arg ''-w''] [] corrupted))))) = Some 0"
    by code_simp
  have w1: "\<not> run_failed (fst (exec_Command ideal ''powershell''
        [Arg ''-NoProfile'', Arg ''-NonInteractive'', Arg ''-Command'',
         Sprintf get_script [''app'' @ ''/'' @ ''k'', ''app'' @ ''/'' @ ''k'']] [] corrupted))"
    by code_simp
  have w2: "snd (DecodeString encodeStd (TrimSpace (stdout (fst (exec_Command ideal ''powershell''
        [Arg ''-NoProfile'', Arg ''-NonInteractive'', Arg ''-Command'',
         Sprintf get_script [''app'' @ ''/'' @ ''k'', ''app'' @ ''/'' @ ''k'']] [] corrupted))))) = Some 0"
    by code_simp
  have j1: "fst (idb_open ideal dbName 1 corrupted)"
    by code_simp
  have j2: "fst (idb_get ideal storeName (''app'' @ ''/'' @ ''k'')
      (snd (idb_open ideal dbName 1 corrupted))) = IdbRecord ''%%%''"
    by code_simp
  have j3: "snd (DecodeString encodeStd ''%%%'') = Some 0"
    by code_simp
  have tool: "\<not> hasSecretTool ideal corrupted"
    by code_simp
  from decode_failure_is_reported[where gsd = getStorageDir_linux and S = ideal
      and service = "''app''" and key = "''k''" and w = corrupted
      and path = "''/home/user/.local/share/vault-secrets/YXBwL2s=''"
      and data = "bytes_of_string ''%%%''" and n = 0 and encoded = "''%%%''"]
    f1 f2 f3 d1 d2 w1 w2 j1 j2 j3 tool
  show ?thesis
    by (simp add: linux_get_def)
qed

text \<open>
  C10. When \<^verbatim>\<open>Set\<close> is called with an empty service or key and an empty value, the
  check of the identity comes first: the error is \<^verbatim>\<open>ErrInvalidKey\<close>. \<^verbatim>\<open>Get\<close> and
  \<^verbatim>\<open>Del\<close> never return \<^verbatim>\<open>ErrInvalidValue\<close>, on any platform, for any input and
  whatever the facilities do.
\<close>

theorem validation_precedence:
  "(service = [] \<or> key = [] \<longrightarrow>
      fst (vault_Set p S service key [] w) = Some ErrInvalidKey) \<and>
   snd (fst (vault_Get p S service key w)) \<noteq> Some ErrInvalidValue \<and>
   fst (vault_Del p S service key w) \<noteq> Some ErrInvalidValue"
proof -
  have "snd (fst (vault_Get p S service key w)) \<noteq> Some ErrInvalidValue"
    using backend_get_errors[of p S service key w ErrInvalidValue]
    by (auto simp: vault_Get_def facade_Get_def)
  moreover have "fst (vault_Del p S service key w) \<noteq> Some ErrInvalidValue"
    using backend_del_errors[of p S service key w ErrInvalidValue]
    by (auto simp: vault_Del_def facade_Del_def)
  ultimately show ?thesis
    by (simp add: vault_Set_def facade_Set_def)
qed

theorem validation_precedence_witness:
  "fst (vault_Set Windows ideal [] ''k'' [] fresh) = Some ErrInvalidKey \<and>
   fst (vault_Set Windows ideal ''s'' [] [] fresh) = Some ErrInvalidKey"
  using validation_precedence[where service = "[]" and key = "''k''" and p = Windows
      and S = ideal and w = fresh]
    validation_precedence[where service = "''s''" and key = "[]" and p = Windows
      and S = ideal and w = fresh]
  by simp

end
